theory Spec2Isabelle
  imports Main "HOL-Library.Word"
begin

unbundle bit_operations_syntax

section \<open>Interview-Screener: the evaluation workflow, its cache and the ranking service\<close>

text \<open>
  A shallow embedding of \<^verbatim>\<open>app/agents/nodes.py\<close>, \<^verbatim>\<open>app/agents/evaluator.py\<close>,
  \<^verbatim>\<open>app/agents/analyzer.py\<close>, \<^verbatim>\<open>app/agents/improvement.py\<close>, \<^verbatim>\<open>app/core/graph.py\<close>,
  \<^verbatim>\<open>app/services/evaluation.py\<close>, \<^verbatim>\<open>app/services/ranking.py\<close> and the pydantic models
  of \<^verbatim>\<open>app/schemas\<close>.

  A Python \<^verbatim>\<open>str\<close> is a \<open>string\<close>, one \<open>char\<close> per character (code points below 256),
  so \<open>length\<close> is Python's \<^verbatim>\<open>len\<close>. A Python \<^verbatim>\<open>int\<close> is an \<open>int\<close>. Every
  \<^verbatim>\<open>raise\<close> is a value \<open>Inl e\<close> of a sum type and every \<^verbatim>\<open>except Exception\<close> a case
  distinction on it.
\<close>

subsection \<open>Exceptions\<close>

text \<open>
  The code never looks at the class of an exception (every handler is
  \<^verbatim>\<open>except Exception as e\<close>); it only uses \<^verbatim>\<open>str(e)\<close>. The constructor keeps the
  class for the reader, the argument is the message. For a pydantic \<open>ValidationError\<close> the
  message names the model and the field that was refused (pydantic's own text is longer).
\<close>

datatype exn =
    KeyError string
  | TypeError string
  | ValueError string
  | ValidationError string
  | ExternalError string

fun str_exn :: "exn \<Rightarrow> string" where
  "str_exn (KeyError m) = m"
| "str_exn (TypeError m) = m"
| "str_exn (ValueError m) = m"
| "str_exn (ValidationError m) = m"
| "str_exn (ExternalError m) = m"

subsection \<open>The shared state (\<^verbatim>\<open>app/schemas/state.py\<close>)\<close>

text \<open>
  \<^verbatim>\<open>AgentState\<close> is a dictionary. A key of it is in one of three conditions, and the code
  tells them apart: \<^verbatim>\<open>state.get(k, d)\<close> gives \<^verbatim>\<open>d\<close> only when the key is absent, and
  \<^verbatim>\<open>None\<close> when the key is there with the value \<^verbatim>\<open>None\<close>.
\<close>

datatype 'a slot = Absent | Null | Val 'a

text \<open>\<^verbatim>\<open>state.get(k)\<close>: the value, \<^verbatim>\<open>None\<close> when absent.\<close>

fun get :: "'a slot \<Rightarrow> 'a option" where
  "get Absent = None"
| "get Null = None"
| "get (Val v) = Some v"

text \<open>\<^verbatim>\<open>state.get(k, d)\<close>: the default only when the key is absent.\<close>

fun get_default :: "'a slot \<Rightarrow> 'a \<Rightarrow> 'a option" where
  "get_default Absent d = Some d"
| "get_default Null d = None"
| "get_default (Val v) d = Some v"

text \<open>\<^verbatim>\<open>state[k]\<close>: \<^verbatim>\<open>KeyError\<close> when the key is absent.\<close>

fun subscript :: "string \<Rightarrow> 'a slot \<Rightarrow> exn + 'a option" where
  "subscript k Absent = Inl (KeyError k)"
| "subscript k Null = Inr None"
| "subscript k (Val v) = Inr (Some v)"

text \<open>Writing a Python value under a key.\<close>

fun put :: "'a option \<Rightarrow> 'a slot" where
  "put None = Null"
| "put (Some v) = Val v"

text \<open>
  The keys of \<^verbatim>\<open>AgentState\<close>, with their declared types. \<^verbatim>\<open>candidate_answer\<close> is a
  \<^verbatim>\<open>str\<close>; \<^verbatim>\<open>messages\<close> is the list of the message contents, the one channel with a
  reducer (\<^verbatim>\<open>operator.add\<close>: an update is appended).
\<close>

record AgentState =
  candidate_answer :: string
  question_context :: "string slot"
  evaluator_score :: "int slot"
  evaluator_justification :: "string slot"
  analyzer_strengths :: "string slot"
  analyzer_weaknesses :: "string slot"
  improvement_suggestion :: "string slot"
  final_score :: "int slot"
  final_summary :: "string slot"
  final_improvement :: "string slot"
  messages :: "string list"
  current_agent :: "string slot"
  error :: "string slot"
  cached :: bool

subsection \<open>The synthesizer node (\<^verbatim>\<open>app/agents/nodes.py\<close>, \<^verbatim>\<open>synthesizer_node\<close>)\<close>

text \<open>\<^verbatim>\<open>len(x)\<close> on a value that is a \<^verbatim>\<open>str\<close> or \<^verbatim>\<open>None\<close>.\<close>

definition NoneType_has_no_len :: string where
  "NoneType_has_no_len =
     ''object of type '' @ [CHR 0x27] @ ''NoneType'' @ [CHR 0x27] @ '' has no len()''"

fun py_len :: "string option \<Rightarrow> exn + nat" where
  "py_len None = Inl (TypeError NoneType_has_no_len)"
| "py_len (Some s) = Inr (length s)"

text \<open>
  The \<^verbatim>\<open>try\<close> block of \<^verbatim>\<open>synthesizer_node\<close>: the three reads with their defaults, the
  two truncations, and the update it returns, applied to the state.
\<close>

definition synthesizer_try :: "AgentState \<Rightarrow> exn + AgentState" where
  "synthesizer_try state =
     (let score0 = get_default (evaluator_score state) 3;
          summary0 = get_default (final_summary state) ''No summary available'';
          improvement0 = get_default (final_improvement state)
                           ''No improvement suggestion available''
      in case py_len summary0 of
           Inl e \<Rightarrow> Inl e
         | Inr n \<Rightarrow>
             (let summary1 = (if n > 200 then map_option (\<lambda>s. take 197 s @ ''...'') summary0
                              else summary0)
              in case py_len improvement0 of
                   Inl e \<Rightarrow> Inl e
                 | Inr m \<Rightarrow>
                     (let improvement1 =
                            (if m > 300 then map_option (\<lambda>s. take 297 s @ ''...'') improvement0
                             else improvement0)
                      in Inr (state\<lparr>final_score := put score0,
                                     final_summary := put summary1,
                                     final_improvement := put improvement1,
                                     current_agent := Val ''synthesizer'',
                                     messages := messages state @ [''Synthesis complete'']\<rparr>))))"

definition synthesizer_node :: "AgentState \<Rightarrow> AgentState" where
  "synthesizer_node state =
     (case synthesizer_try state of
        Inr state' \<Rightarrow> state'
      | Inl e \<Rightarrow> state\<lparr>final_score := Val 3,
                         final_summary := Val ''Synthesis error'',
                         final_improvement := Val ''Unable to provide feedback'',
                         error := Val (str_exn e),
                         current_agent := Val ''synthesizer''\<rparr>)"

subsection \<open>The response and request models (\<^verbatim>\<open>app/schemas\<close>)\<close>

text \<open>
  A pydantic model validates its fields when it is constructed and raises
  \<open>ValidationError\<close> when one of its \<^verbatim>\<open>Field\<close> constraints fails. Each model is a record
  with a constructor that returns the record or the exception. An argument that may be
  \<^verbatim>\<open>None\<close> at the call is an \<open>option\<close>; \<^verbatim>\<open>None\<close> is refused by an \<^verbatim>\<open>int\<close> or
  \<^verbatim>\<open>str\<close> field.
\<close>

record EvaluationResponse =
  score :: int
  summary :: string
  improvement :: string

text \<open>
  \<^verbatim>\<open>score: ge=1, le=5\<close>; \<^verbatim>\<open>summary: min_length=10, max_length=200\<close>;
  \<^verbatim>\<open>improvement: min_length=10, max_length=300\<close>.
\<close>

fun mk_EvaluationResponse ::
  "int option \<Rightarrow> string option \<Rightarrow> string option \<Rightarrow> exn + EvaluationResponse" where
  "mk_EvaluationResponse (Some n) (Some s) (Some i) =
     (if \<not> (1 \<le> n \<and> n \<le> 5) then Inl (ValidationError ''EvaluationResponse.score'')
      else if \<not> (10 \<le> length s \<and> length s \<le> 200)
        then Inl (ValidationError ''EvaluationResponse.summary'')
      else if \<not> (10 \<le> length i \<and> length i \<le> 300)
        then Inl (ValidationError ''EvaluationResponse.improvement'')
      else Inr \<lparr>score = n, summary = s, improvement = i\<rparr>)"
| "mk_EvaluationResponse None _ _ = Inl (ValidationError ''EvaluationResponse.score'')"
| "mk_EvaluationResponse _ None _ = Inl (ValidationError ''EvaluationResponse.summary'')"
| "mk_EvaluationResponse _ _ None = Inl (ValidationError ''EvaluationResponse.improvement'')"

record RankedCandidate =
  rc_candidate_id :: string
  rc_score :: int
  rc_summary :: string
  rc_improvement :: string
  rc_rank :: int

text \<open>\<^verbatim>\<open>score: ge=1, le=5\<close>; \<^verbatim>\<open>rank: ge=1\<close>; the three texts are unconstrained.\<close>

definition mk_RankedCandidate ::
  "string \<Rightarrow> int \<Rightarrow> string \<Rightarrow> string \<Rightarrow> int \<Rightarrow> exn + RankedCandidate" where
  "mk_RankedCandidate cid n s i r =
     (if \<not> (1 \<le> n \<and> n \<le> 5) then Inl (ValidationError ''RankedCandidate.score'')
      else if \<not> 1 \<le> r then Inl (ValidationError ''RankedCandidate.rank'')
      else Inr \<lparr>rc_candidate_id = cid, rc_score = n, rc_summary = s, rc_improvement = i,
                 rc_rank = r\<rparr>)"

record RankingResponse =
  candidates :: "RankedCandidate list"
  total_candidates :: int

text \<open>\<^verbatim>\<open>total_candidates: ge=1\<close>.\<close>

definition mk_RankingResponse :: "RankedCandidate list \<Rightarrow> int \<Rightarrow> exn + RankingResponse" where
  "mk_RankingResponse cs n =
     (if \<not> 1 \<le> n then Inl (ValidationError ''RankingResponse.total_candidates'')
      else Inr \<lparr>candidates = cs, total_candidates = n\<rparr>)"

text \<open>
  \<^verbatim>\<open>str.strip()\<close>: the characters for which \<^verbatim>\<open>str.isspace\<close> holds, among the code points
  below 256.
\<close>

definition isspace :: "char \<Rightarrow> bool" where
  "isspace c = (of_char c \<in> {9, 10, 11, 12, 13, 28, 29, 30, 31, 32, 133, 160 :: nat})"

definition strip :: "string \<Rightarrow> string" where
  "strip s = rev (dropWhile isspace (rev (dropWhile isspace s)))"

record EvaluateAnswerRequest =
  rq_candidate_answer :: string
  rq_question_context :: "string option"

text \<open>
  \<^verbatim>\<open>candidate_answer: min_length=10, max_length=5000\<close>, then the validator
  \<^verbatim>\<open>validate_answer\<close>, which refuses an answer whose stripped form is shorter than 10 and
  stores the stripped form; \<^verbatim>\<open>question_context: max_length=1000\<close>, default \<^verbatim>\<open>None\<close>.
\<close>

definition validate_answer :: "string \<Rightarrow> exn + string" where
  "validate_answer v =
     (if length (strip v) < 10 then Inl (ValueError ''Answer must be at least 10 characters'')
      else Inr (strip v))"

definition mk_EvaluateAnswerRequest ::
  "string \<Rightarrow> string option \<Rightarrow> exn + EvaluateAnswerRequest" where
  "mk_EvaluateAnswerRequest a q =
     (if \<not> (10 \<le> length a \<and> length a \<le> 5000)
        then Inl (ValidationError ''EvaluateAnswerRequest.candidate_answer'')
      else case validate_answer a of
        Inl e \<Rightarrow> Inl (ValidationError (str_exn e))
      | Inr a' \<Rightarrow>
          (case q of
             None \<Rightarrow> Inr \<lparr>rq_candidate_answer = a', rq_question_context = None\<rparr>
           | Some t \<Rightarrow>
               if \<not> length t \<le> 1000
                 then Inl (ValidationError ''EvaluateAnswerRequest.question_context'')
               else Inr \<lparr>rq_candidate_answer = a', rq_question_context = Some t\<rparr>))"

record CandidateAnswer =
  ca_candidate_id :: string
  ca_answer :: string

record RankCandidatesRequest =
  rk_candidates :: "CandidateAnswer list"
  rk_question_context :: "string option"

subsection \<open>Settings and the judging capability (\<^verbatim>\<open>app/core/config.py\<close>, \<^verbatim>\<open>app/core/llm.py\<close>)\<close>

record Settings =
  groq_api_key :: string
  enable_caching :: bool
  redis_ttl :: int

definition get_langchain_llm :: "Settings \<Rightarrow> exn + unit" where
  "get_langchain_llm settings =
     (if groq_api_key settings = []
      then Inl (ValueError (''GROQ_API_KEY is not set. Please set it in your environment '' @
                            ''variables. Get your API key from https://console.groq.com''))
      else Inr ())"

text \<open>
  The model behind \<^verbatim>\<open>llm.invoke\<close>, the parser \<^verbatim>\<open>JsonOutputParser.parse\<close> and the type
  coercion of pydantic are libraries outside the repository, and the model samples its
  answer (temperature 0.3 by default), so the same prompt may be answered differently each
  time. The capability is therefore an oracle: for the \<open>n\<close>-th invocation made so far and
  the user content sent, it gives either the exception one of the three raised, or the typed
  keyword arguments that reach the constructor of the stage's output model. The \<^verbatim>\<open>Field\<close>
  constraints of that model belong to the repository and are checked below.
\<close>

record Judge =
  score_reply :: "nat \<Rightarrow> string \<Rightarrow> exn + (int \<times> string)"
  analysis_reply :: "nat \<Rightarrow> string \<Rightarrow> exn + (string \<times> string \<times> string)"
  suggestion_reply :: "nat \<Rightarrow> string \<Rightarrow> exn + string"

subsection \<open>The three judging agents (\<^verbatim>\<open>app/agents\<close>)\<close>

text \<open>\<^verbatim>\<open>str(n)\<close> for an \<^verbatim>\<open>int\<close>.\<close>

fun digits :: "nat \<Rightarrow> string" where
  "digits n = (if n < 10 then [char_of (48 + n)]
               else digits (n div 10) @ [char_of (48 + n mod 10)])"

definition str_int :: "int \<Rightarrow> string" where
  "str_int i = (if i < 0 then ''-'' @ digits (nat (- i)) else digits (nat i))"

text \<open>
  The user message: \<^verbatim>\<open>f"Candidate's Answer:\n{candidate_answer}"\<close>, behind
  \<^verbatim>\<open>f"Question: {question_context}\n\n"\<close> when the question is truthy (neither
  \<^verbatim>\<open>None\<close> nor empty).
\<close>

definition base_content :: "string \<Rightarrow> string option \<Rightarrow> string" where
  "base_content answer question =
     (let user_content = ''Candidate'' @ [CHR 0x27] @ ''s Answer:'' @ [CHR 0x0A] @ answer
      in case question of
           None \<Rightarrow> user_content
         | Some q \<Rightarrow> if q = [] then user_content
                     else ''Question: '' @ q @ [CHR 0x0A, CHR 0x0A] @ user_content)"

text \<open>\<^verbatim>\<open>if score: user_content += f"\n\nEvaluator Score: {score}/5"\<close> (0 is falsy).\<close>

definition with_score :: "string \<Rightarrow> int option \<Rightarrow> string" where
  "with_score user_content sc =
     (case sc of
        None \<Rightarrow> user_content
      | Some n \<Rightarrow> if n = 0 then user_content
                  else user_content @ [CHR 0x0A, CHR 0x0A] @ ''Evaluator Score: '' @ str_int n @ ''/5'')"

definition with_weaknesses :: "string \<Rightarrow> string option \<Rightarrow> string" where
  "with_weaknesses user_content weaknesses =
     (case weaknesses of
        None \<Rightarrow> user_content
      | Some w \<Rightarrow> if w = [] then user_content
                  else user_content @ [CHR 0x0A, CHR 0x0A] @ ''Identified Weaknesses: '' @ w)"

record EvaluatorOutput =
  eo_score :: int
  eo_justification :: string

text \<open>\<^verbatim>\<open>EvaluatorOutput\<close>: \<^verbatim>\<open>score: ge=1, le=5\<close>.\<close>

definition mk_EvaluatorOutput :: "int \<Rightarrow> string \<Rightarrow> exn + EvaluatorOutput" where
  "mk_EvaluatorOutput n j =
     (if \<not> (1 \<le> n \<and> n \<le> 5) then Inl (ValidationError ''EvaluatorOutput.score'')
      else Inr \<lparr>eo_score = n, eo_justification = j\<rparr>)"

record AnalyzerOutput =
  ao_strengths :: string
  ao_weaknesses :: string
  ao_summary :: string

record ImprovementOutput =
  io_suggestion :: string

text \<open>
  Each agent returns its output or the exception that left it, and the number of
  invocations of the capability made so far. \<^verbatim>\<open>get_langchain_llm()\<close> stands before the
  \<^verbatim>\<open>try\<close>, so its \<open>ValueError\<close> leaves the agent; everything inside the \<^verbatim>\<open>try\<close> ends
  in the fallback value.
\<close>

definition evaluate_answer_sync ::
  "Settings \<Rightarrow> Judge \<Rightarrow> nat \<Rightarrow> string \<Rightarrow> string option \<Rightarrow> (exn + EvaluatorOutput) \<times> nat" where
  "evaluate_answer_sync settings judge n answer question =
     (case get_langchain_llm settings of
        Inl e \<Rightarrow> (Inl e, n)
      | Inr llm \<Rightarrow>
          (let user_content = base_content answer question;
               fallback = (\<lambda>e. mk_EvaluatorOutput 3
                                  (''Evaluation error occurred: '' @ take 100 (str_exn e)))
           in case score_reply judge n user_content of
                Inl e \<Rightarrow> (fallback e, Suc n)
              | Inr (sc, j) \<Rightarrow>
                  (case mk_EvaluatorOutput sc j of
                     Inl e \<Rightarrow> (fallback e, Suc n)
                   | Inr result \<Rightarrow> (Inr result, Suc n))))"

definition analyze_answer_sync ::
  "Settings \<Rightarrow> Judge \<Rightarrow> nat \<Rightarrow> string \<Rightarrow> string option \<Rightarrow> int option
     \<Rightarrow> (exn + AnalyzerOutput) \<times> nat" where
  "analyze_answer_sync settings judge n answer question sc =
     (case get_langchain_llm settings of
        Inl e \<Rightarrow> (Inl e, n)
      | Inr llm \<Rightarrow>
          (let user_content = with_score (base_content answer question) sc
           in case analysis_reply judge n user_content of
                Inl e \<Rightarrow>
                  (Inr \<lparr>ao_strengths = ''Unable to analyze strengths'',
                        ao_weaknesses = ''Unable to analyze weaknesses'',
                        ao_summary = ''Analysis unavailable due to error''\<rparr>, Suc n)
              | Inr (st, wk, sm) \<Rightarrow>
                  (Inr \<lparr>ao_strengths = st, ao_weaknesses = wk, ao_summary = sm\<rparr>, Suc n)))"

definition suggest_improvement_sync ::
  "Settings \<Rightarrow> Judge \<Rightarrow> nat \<Rightarrow> string \<Rightarrow> string option \<Rightarrow> int option \<Rightarrow> string option
     \<Rightarrow> (exn + ImprovementOutput) \<times> nat" where
  "suggest_improvement_sync settings judge n answer question sc weaknesses =
     (case get_langchain_llm settings of
        Inl e \<Rightarrow> (Inl e, n)
      | Inr llm \<Rightarrow>
          (let user_content =
                 with_weaknesses (with_score (base_content answer question) sc)
                   weaknesses
           in case suggestion_reply judge n user_content of
                Inl e \<Rightarrow>
                  (Inr \<lparr>io_suggestion =
                          ''Review the question requirements and ensure your answer addresses '' @
                          ''all key points with specific examples.''\<rparr>, Suc n)
              | Inr sg \<Rightarrow> (Inr \<lparr>io_suggestion = sg\<rparr>, Suc n)))"

subsection \<open>The judging nodes (\<^verbatim>\<open>app/agents/nodes.py\<close>)\<close>

text \<open>
  A node returns a dictionary of updates, which the graph writes into the state: a key
  of the update replaces the value of that key, \<^verbatim>\<open>messages\<close> is appended to. The model
  returns the state after the update, with the count of invocations.
\<close>

definition evaluator_node :: "Settings \<Rightarrow> Judge \<Rightarrow> AgentState \<times> nat \<Rightarrow> AgentState \<times> nat" where
  "evaluator_node settings judge = (\<lambda>(state, n).
     case evaluate_answer_sync settings judge n (candidate_answer state)
            (get (question_context state)) of
       (Inr result, n') \<Rightarrow>
         (state\<lparr>evaluator_score := Val (eo_score result),
                evaluator_justification := Val (eo_justification result),
                current_agent := Val ''evaluator'',
                messages := messages state @
                  [''Score: '' @ str_int (eo_score result) @ '', Justification: '' @
                   eo_justification result]\<rparr>, n')
     | (Inl e, n') \<Rightarrow>
         (state\<lparr>evaluator_score := Val 3,
                evaluator_justification := Val ''Evaluation error'',
                error := Val (str_exn e),
                current_agent := Val ''evaluator''\<rparr>, n'))"

definition analyzer_node :: "Settings \<Rightarrow> Judge \<Rightarrow> AgentState \<times> nat \<Rightarrow> AgentState \<times> nat" where
  "analyzer_node settings judge = (\<lambda>(state, n).
     case analyze_answer_sync settings judge n (candidate_answer state)
            (get (question_context state)) (get (evaluator_score state)) of
       (Inr result, n') \<Rightarrow>
         (state\<lparr>analyzer_strengths := Val (ao_strengths result),
                analyzer_weaknesses := Val (ao_weaknesses result),
                final_summary := Val (ao_summary result),
                current_agent := Val ''analyzer'',
                messages := messages state @ [''Summary: '' @ ao_summary result]\<rparr>, n')
     | (Inl e, n') \<Rightarrow>
         (state\<lparr>analyzer_strengths := Val ''Analysis unavailable'',
                analyzer_weaknesses := Val ''Analysis unavailable'',
                final_summary := Val ''Unable to generate summary'',
                error := Val (str_exn e),
                current_agent := Val ''analyzer''\<rparr>, n'))"

definition improvement_node :: "Settings \<Rightarrow> Judge \<Rightarrow> AgentState \<times> nat \<Rightarrow> AgentState \<times> nat" where
  "improvement_node settings judge = (\<lambda>(state, n).
     case suggest_improvement_sync settings judge n (candidate_answer state)
            (get (question_context state)) (get (evaluator_score state))
            (get (analyzer_weaknesses state)) of
       (Inr result, n') \<Rightarrow>
         (state\<lparr>improvement_suggestion := Val (io_suggestion result),
                final_improvement := Val (io_suggestion result),
                current_agent := Val ''improvement'',
                messages := messages state @ [''Improvement: '' @ io_suggestion result]\<rparr>, n')
     | (Inl e, n') \<Rightarrow>
         (state\<lparr>improvement_suggestion := Val ''Unable to generate suggestion'',
                final_improvement := Val ''Unable to generate suggestion'',
                error := Val (str_exn e),
                current_agent := Val ''improvement''\<rparr>, n'))"

text \<open>\<^verbatim>\<open>should_continue\<close>: the name of the node after the current one.\<close>

definition should_continue :: "AgentState \<Rightarrow> string" where
  "should_continue state =
     (case get (current_agent state) of
        None \<Rightarrow> ''evaluator''
      | Some current \<Rightarrow>
          if current = ''evaluator'' then ''analyzer''
          else if current = ''analyzer'' then ''improvement''
          else if current = ''improvement'' then ''synthesizer''
          else if current = ''synthesizer'' then ''end''
          else ''end'')"

subsection \<open>The workflow (\<^verbatim>\<open>app/core/graph.py\<close>)\<close>

text \<open>
  \<^verbatim>\<open>build_evaluation_graph\<close> enters at the evaluator and adds the edges evaluator to
  analyzer, analyzer to improvement, improvement to synthesizer, synthesizer to \<^verbatim>\<open>END\<close>:
  the nodes run once each, in this order. \<open>graph_trace\<close> lists the state before the first
  node and after each node; \<^verbatim>\<open>graph.invoke\<close> returns the last.
\<close>

definition workflow ::
  "Settings \<Rightarrow> Judge \<Rightarrow> (AgentState \<times> nat \<Rightarrow> AgentState \<times> nat) list" where
  "workflow settings judge =
     [evaluator_node settings judge,
      analyzer_node settings judge,
      improvement_node settings judge,
      (\<lambda>(state, n). (synthesizer_node state, n))]"

fun run_nodes :: "('s \<Rightarrow> 's) list \<Rightarrow> 's \<Rightarrow> 's list" where
  "run_nodes [] s = [s]"
| "run_nodes (f # fs) s = s # run_nodes fs (f s)"

definition graph_trace :: "Settings \<Rightarrow> Judge \<Rightarrow> nat \<Rightarrow> AgentState \<Rightarrow> (AgentState \<times> nat) list" where
  "graph_trace settings judge n initial_state =
     run_nodes (workflow settings judge) (initial_state, n)"

definition graph_invoke :: "Settings \<Rightarrow> Judge \<Rightarrow> nat \<Rightarrow> AgentState \<Rightarrow> AgentState \<times> nat" where
  "graph_invoke settings judge n initial_state =
     last (graph_trace settings judge n initial_state)"

subsection \<open>The cache key (\<^verbatim>\<open>EvaluationService._generate_cache_key\<close>)\<close>

text \<open>
  \<^verbatim>\<open>content.encode()\<close> is UTF-8: one byte for a code point below 128, two bytes for the
  others below 256.
\<close>

definition encode_char :: "char \<Rightarrow> 8 word list" where
  "encode_char c =
     (let n = (of_char c :: nat)
      in if n < 128 then [of_nat n] else [of_nat (192 + n div 64), of_nat (128 + n mod 64)])"

definition encode :: "string \<Rightarrow> 8 word list" where
  "encode s = concat (map encode_char s)"

text \<open>
  \<^verbatim>\<open>hashlib.md5\<close>, as RFC 1321 defines it: the message is padded to a multiple of 64
  bytes and folded block by block into four 32-bit registers, 64 steps to a block.
\<close>

definition md5_s :: "nat list" where
  "md5_s = [7, 12, 17, 22, 7, 12, 17, 22, 7, 12, 17, 22, 7, 12, 17, 22,
            5, 9, 14, 20, 5, 9, 14, 20, 5, 9, 14, 20, 5, 9, 14, 20,
            4, 11, 16, 23, 4, 11, 16, 23, 4, 11, 16, 23, 4, 11, 16, 23,
            6, 10, 15, 21, 6, 10, 15, 21, 6, 10, 15, 21, 6, 10, 15, 21]"

definition md5_K :: "32 word list" where
  "md5_K = [0xd76aa478, 0xe8c7b756, 0x242070db, 0xc1bdceee, 0xf57c0faf, 0x4787c62a,
            0xa8304613, 0xfd469501, 0x698098d8, 0x8b44f7af, 0xffff5bb1, 0x895cd7be,
            0x6b901122, 0xfd987193, 0xa679438e, 0x49b40821, 0xf61e2562, 0xc040b340,
            0x265e5a51, 0xe9b6c7aa, 0xd62f105d, 0x02441453, 0xd8a1e681, 0xe7d3fbc8,
            0x21e1cde6, 0xc33707d6, 0xf4d50d87, 0x455a14ed, 0xa9e3e905, 0xfcefa3f8,
            0x676f02d9, 0x8d2a4c8a, 0xfffa3942, 0x8771f681, 0x6d9d6122, 0xfde5380c,
            0xa4beea44, 0x4bdecfa9, 0xf6bb4b60, 0xbebfbc70, 0x289b7ec6, 0xeaa127fa,
            0xd4ef3085, 0x04881d05, 0xd9d4d039, 0xe6db99e5, 0x1fa27cf8, 0xc4ac5665,
            0xf4292244, 0x432aff97, 0xab9423a7, 0xfc93a039, 0x655b59c3, 0x8f0ccc92,
            0xffeff47d, 0x85845dd1, 0x6fa87e4f, 0xfe2ce6e0, 0xa3014314, 0x4e0811a1,
            0xf7537e82, 0xbd3af235, 0x2ad7d2bb, 0xeb86d391]"

definition le_word :: "8 word list \<Rightarrow> 32 word" where
  "le_word bs = foldr (\<lambda>b acc. ucast b + push_bit 8 acc) bs 0"

definition le_bytes :: "nat \<Rightarrow> 'a::len word \<Rightarrow> 8 word list" where
  "le_bytes k w = map (\<lambda>j. ucast (drop_bit (8 * j) w)) [0..<k]"

definition md5_pad :: "8 word list \<Rightarrow> 8 word list" where
  "md5_pad msg =
     msg @ [0x80] @ replicate ((119 - length msg mod 64) mod 64) 0 @
     le_bytes 8 (of_nat (8 * length msg) :: 64 word)"

definition md5_blocks :: "8 word list \<Rightarrow> 8 word list list" where
  "md5_blocks p = map (\<lambda>k. take 64 (drop (64 * k) p)) [0..<length p div 64]"

type_synonym md5_regs = "32 word \<times> 32 word \<times> 32 word \<times> 32 word"

definition md5_step :: "32 word list \<Rightarrow> md5_regs \<Rightarrow> nat \<Rightarrow> md5_regs" where
  "md5_step M = (\<lambda>(A, B, C, D) i.
     let (F, g) =
           (if i < 16 then ((B AND C) OR (NOT B AND D), i)
            else if i < 32 then ((D AND B) OR (NOT D AND C), (5 * i + 1) mod 16)
            else if i < 48 then (B XOR C XOR D, (3 * i + 5) mod 16)
            else (C XOR (B OR NOT D), (7 * i) mod 16));
         F' = F + A + md5_K ! i + M ! g
     in (D, B + word_rotl (md5_s ! i) F', B, C))"

definition md5_block :: "md5_regs \<Rightarrow> 8 word list \<Rightarrow> md5_regs" where
  "md5_block = (\<lambda>(a0, b0, c0, d0) blk.
     let M = map (\<lambda>j. le_word (take 4 (drop (4 * j) blk))) [0..<16];
         (A, B, C, D) = foldl (md5_step M) (a0, b0, c0, d0) [0..<64]
     in (a0 + A, b0 + B, c0 + C, d0 + D))"

definition md5 :: "8 word list \<Rightarrow> 8 word list" where
  "md5 msg =
     (let (a, b, c, d) =
            foldl md5_block (0x67452301, 0xefcdab89, 0x98badcfe, 0x10325476)
              (md5_blocks (md5_pad msg))
      in le_bytes 4 a @ le_bytes 4 b @ le_bytes 4 c @ le_bytes 4 d)"

definition hexdigest :: "8 word list \<Rightarrow> string" where
  "hexdigest bs =
     concat (map (\<lambda>b. [''0123456789abcdef'' ! (unat b div 16),
                        ''0123456789abcdef'' ! (unat b mod 16)]) bs)"

text \<open>
  \<^verbatim>\<open>content = f"{answer}:{question or ''}"\<close>, then
  \<^verbatim>\<open>f"eval:{hashlib.md5(content.encode()).hexdigest()}"\<close>.
\<close>

definition cache_content :: "string \<Rightarrow> string option \<Rightarrow> string" where
  "cache_content answer question =
     answer @ '':'' @ (case question of None \<Rightarrow> [] | Some q \<Rightarrow> q)"

definition generate_cache_key :: "string \<Rightarrow> string option \<Rightarrow> string" where
  "generate_cache_key answer question =
     ''eval:'' @ hexdigest (md5 (encode (cache_content answer question)))"

subsection \<open>The cache store and the evaluation service (\<^verbatim>\<open>app/services/evaluation.py\<close>)\<close>

text \<open>
  The text Redis holds under a key. \<^verbatim>\<open>json.loads\<close> and the type coercion of pydantic are
  library code, so a stored text is described by what they make of it: \<open>EmptyText\<close> is the
  empty string (falsy, so \<^verbatim>\<open>if cached:\<close> skips it); \<open>Undecodable\<close> is a text on which
  \<^verbatim>\<open>json.loads\<close> raises or that lacks a field of the right type; \<open>Encoded n s i\<close> is a
  text that decodes to the three typed fields, among them
  \<^verbatim>\<open>json.dumps(result.model_dump())\<close> for a response with these fields.
\<close>

datatype cached_text = EmptyText | Undecodable | Encoded int string string

text \<open>
  \<open>connected\<close>: \<^verbatim>\<open>self.redis_client\<close> is not \<^verbatim>\<open>None\<close>; \<open>get_error\<close> and
  \<open>setex_error\<close>: the exception a read or a write raises, if it does; \<open>entries\<close>: the
  stored texts, each with the time to live it was written with.
\<close>

record CacheStore =
  connected :: bool
  get_error :: "exn option"
  setex_error :: "exn option"
  entries :: "string \<rightharpoonup> int \<times> cached_text"

definition get_cached_result :: "Settings \<Rightarrow> CacheStore \<Rightarrow> string \<Rightarrow> EvaluationResponse option" where
  "get_cached_result settings redis cache_key =
     (if \<not> connected redis \<or> \<not> enable_caching settings then None
      else case get_error redis of
        Some e \<Rightarrow> None
      | None \<Rightarrow>
          (case entries redis cache_key of
             None \<Rightarrow> None
           | Some (ttl, EmptyText) \<Rightarrow> None
           | Some (ttl, Undecodable) \<Rightarrow> None
           | Some (ttl, Encoded n s i) \<Rightarrow>
               (case mk_EvaluationResponse (Some n) (Some s) (Some i) of
                  Inl e \<Rightarrow> None
                | Inr r \<Rightarrow> Some r)))"

definition cache_result :: "Settings \<Rightarrow> CacheStore \<Rightarrow> string \<Rightarrow> EvaluationResponse \<Rightarrow> CacheStore" where
  "cache_result settings redis cache_key result =
     (if \<not> connected redis \<or> \<not> enable_caching settings then redis
      else case setex_error redis of
        Some e \<Rightarrow> redis
      | None \<Rightarrow>
          redis\<lparr>entries := (entries redis)(cache_key \<mapsto>
                   (redis_ttl settings,
                    Encoded (score result) (summary result) (improvement result)))\<rparr>)"

text \<open>What an evaluation reads and changes outside itself.\<close>

record World =
  llm_calls :: nat
  store :: CacheStore

definition initial_state :: "EvaluateAnswerRequest \<Rightarrow> AgentState" where
  "initial_state request =
     \<lparr>candidate_answer = rq_candidate_answer request,
      question_context = put (rq_question_context request),
      evaluator_score = Null,
      evaluator_justification = Null,
      analyzer_strengths = Null,
      analyzer_weaknesses = Null,
      improvement_suggestion = Null,
      final_score = Null,
      final_summary = Null,
      final_improvement = Null,
      messages = [],
      current_agent = Null,
      error = Null,
      cached = False\<rparr>"

text \<open>
  The guarded block of \<^verbatim>\<open>evaluate\<close> up to the construction of the response: the graph is
  run on the initial state and the response is built from the three final keys of the
  result (\<^verbatim>\<open>result["final_score"]\<close> and so on).
\<close>

definition build_response :: "AgentState \<Rightarrow> exn + EvaluationResponse" where
  "build_response result =
     (case subscript ''final_score'' (final_score result) of
        Inl e \<Rightarrow> Inl e
      | Inr sc \<Rightarrow>
          (case subscript ''final_summary'' (final_summary result) of
             Inl e \<Rightarrow> Inl e
           | Inr sm \<Rightarrow>
               (case subscript ''final_improvement'' (final_improvement result) of
                  Inl e \<Rightarrow> Inl e
                | Inr im \<Rightarrow> mk_EvaluationResponse sc sm im)))"

text \<open>
  The guarded block of \<^verbatim>\<open>evaluate\<close>: the response of the workflow, written to the
  cache; when anything in the block raised, the neutral response, which is not written to
  the cache.
\<close>

definition run_workflow ::
  "Settings \<Rightarrow> Judge \<Rightarrow> World \<Rightarrow> string \<Rightarrow> EvaluateAnswerRequest
     \<Rightarrow> (exn + EvaluationResponse) \<times> World" where
  "run_workflow settings judge w cache_key request =
     (let (result, n) = graph_invoke settings judge (llm_calls w) (initial_state request)
      in case build_response result of
           Inr response \<Rightarrow>
             (Inr response,
              w\<lparr>llm_calls := n,
                store := cache_result settings (store w) cache_key response\<rparr>)
         | Inl e \<Rightarrow>
             (mk_EvaluationResponse (Some 3) (Some ''Evaluation encountered an error'')
                (Some ''Please try again or contact support''),
              w\<lparr>llm_calls := n\<rparr>))"

text \<open>\<^verbatim>\<open>evaluate\<close>: the cached response on a hit, the guarded block otherwise.\<close>

definition evaluate ::
  "Settings \<Rightarrow> Judge \<Rightarrow> World \<Rightarrow> EvaluateAnswerRequest \<Rightarrow> (exn + EvaluationResponse) \<times> World" where
  "evaluate settings judge w request =
     (let cache_key = generate_cache_key (rq_candidate_answer request)
                        (rq_question_context request)
      in case get_cached_result settings (store w) cache_key of
           Some cached_result \<Rightarrow> (Inr cached_result, w)
         | None \<Rightarrow> run_workflow settings judge w cache_key request)"

subsection \<open>The ranking service (\<^verbatim>\<open>app/services/ranking.py\<close>)\<close>

text \<open>
  \<^verbatim>\<open>_evaluate_candidate\<close> receives the evaluation service as an argument; \<open>ev\<close> is what
  awaiting its \<^verbatim>\<open>evaluate\<close> gives for a request: a response, or the exception that left
  it. Both branches build the draft with \<^verbatim>\<open>rank=0\<close>; the first stands inside the
  \<^verbatim>\<open>try\<close>, so an exception of its constructor reaches the handler too.
\<close>

definition evaluate_candidate ::
  "(EvaluateAnswerRequest \<Rightarrow> exn + EvaluationResponse) \<Rightarrow> string \<Rightarrow> EvaluateAnswerRequest
     \<Rightarrow> exn + RankedCandidate" where
  "evaluate_candidate ev cid eval_request =
     (let fallback = mk_RankedCandidate cid 3 ''Evaluation failed''
                       ''Unable to provide feedback'' 0
      in case ev eval_request of
           Inl e \<Rightarrow> fallback
         | Inr result \<Rightarrow>
             (case mk_RankedCandidate cid (score result) (summary result)
                     (improvement result) 0 of
                Inl e \<Rightarrow> fallback
              | Inr draft \<Rightarrow> Inr draft))"

text \<open>
  The first loop of \<^verbatim>\<open>rank_candidates\<close> builds one request for each candidate, in order;
  an exception of the constructor leaves \<^verbatim>\<open>rank_candidates\<close>.
\<close>

fun eval_tasks ::
  "string option \<Rightarrow> CandidateAnswer list \<Rightarrow> exn + (string \<times> EvaluateAnswerRequest) list" where
  "eval_tasks q [] = Inr []"
| "eval_tasks q (c # cs) =
     (case mk_EvaluateAnswerRequest (ca_answer c) q of
        Inl e \<Rightarrow> Inl e
      | Inr eval_request \<Rightarrow>
          (case eval_tasks q cs of
             Inl e \<Rightarrow> Inl e
           | Inr ts \<Rightarrow> Inr ((ca_candidate_id c, eval_request) # ts)))"

text \<open>
  \<^verbatim>\<open>asyncio.gather(*eval_tasks)\<close>: the results in the order of the tasks, or an exception
  of a task (of the first one in the list that raised; which one surfaces in a run is a
  matter of scheduling).
\<close>

fun gather :: "(exn + 'a) list \<Rightarrow> exn + 'a list" where
  "gather [] = Inr []"
| "gather (Inl e # ts) = Inl e"
| "gather (Inr x # ts) = (case gather ts of Inl e \<Rightarrow> Inl e | Inr xs \<Rightarrow> Inr (x # xs))"

text \<open>
  \<^verbatim>\<open>evaluated_candidates.sort(key=lambda x: x.score, reverse=True)\<close>: Python's sort is
  stable, also with \<^verbatim>\<open>reverse=True\<close>, so equal scores keep their order. This is the
  stable insertion sort on the negated score.
\<close>

definition sort_by_score :: "RankedCandidate list \<Rightarrow> RankedCandidate list" where
  "sort_by_score cs = sort_key (\<lambda>x. - rc_score x) cs"

text \<open>The second loop: a new \<^verbatim>\<open>RankedCandidate\<close> with \<^verbatim>\<open>rank=current_rank\<close> for each.\<close>

fun assign_ranks :: "int \<Rightarrow> RankedCandidate list \<Rightarrow> exn + RankedCandidate list" where
  "assign_ranks current_rank [] = Inr []"
| "assign_ranks current_rank (c # cs) =
     (case mk_RankedCandidate (rc_candidate_id c) (rc_score c) (rc_summary c)
             (rc_improvement c) current_rank of
        Inl e \<Rightarrow> Inl e
      | Inr r \<Rightarrow>
          (case assign_ranks (current_rank + 1) cs of
             Inl e \<Rightarrow> Inl e
           | Inr rs \<Rightarrow> Inr (r # rs)))"

definition rank_candidates ::
  "(EvaluateAnswerRequest \<Rightarrow> exn + EvaluationResponse) \<Rightarrow> RankCandidatesRequest
     \<Rightarrow> exn + RankingResponse" where
  "rank_candidates ev request =
     (case eval_tasks (rk_question_context request) (rk_candidates request) of
        Inl e \<Rightarrow> Inl e
      | Inr tasks \<Rightarrow>
          (case gather (map (\<lambda>(cid, eval_request). evaluate_candidate ev cid eval_request) tasks) of
             Inl e \<Rightarrow> Inl e
           | Inr evaluated_candidates \<Rightarrow>
               (case assign_ranks 1 (sort_by_score evaluated_candidates) of
                  Inl e \<Rightarrow> Inl e
                | Inr ranked_candidates \<Rightarrow>
                    mk_RankingResponse ranked_candidates (int (length ranked_candidates)))))"

subsection \<open>Notions the properties are stated with\<close>

text \<open>The constraints of \<^verbatim>\<open>EvaluationResponse\<close>, as a predicate on the record.\<close>

definition valid_response :: "EvaluationResponse \<Rightarrow> bool" where
  "valid_response r =
     (1 \<le> score r \<and> score r \<le> 5 \<and>
      10 \<le> length (summary r) \<and> length (summary r) \<le> 200 \<and>
      10 \<le> length (improvement r) \<and> length (improvement r) \<le> 300)"

text \<open>The neutral response of the handler of \<^verbatim>\<open>evaluate\<close>.\<close>

definition neutral_response :: EvaluationResponse where
  "neutral_response =
     \<lparr>score = 3, summary = ''Evaluation encountered an error'',
      improvement = ''Please try again or contact support''\<rparr>"

text \<open>
  The position of the marker \<^verbatim>\<open>current_agent\<close> in the order of the graph: 0 before the
  first node, then 1 to 4 in the order of the edges; a name that is none of the four is
  placed behind them.
\<close>

definition stage_order :: "string list" where
  "stage_order = [''evaluator'', ''analyzer'', ''improvement'', ''synthesizer'']"

fun position :: "string \<Rightarrow> string list \<Rightarrow> nat" where
  "position a [] = 0"
| "position a (b # bs) = (if a = b then 0 else Suc (position a bs))"

definition stage_index :: "AgentState \<Rightarrow> nat" where
  "stage_index state =
     (case get (current_agent state) of
        None \<Rightarrow> 0
      | Some a \<Rightarrow> Suc (position a stage_order))"

fun is_set :: "'a slot \<Rightarrow> bool" where
  "is_set (Val v) = True"
| "is_set Null = False"
| "is_set Absent = False"

text \<open>The keys each node writes as its result, by the position of the node.\<close>

definition outputs_set :: "nat \<Rightarrow> AgentState \<Rightarrow> bool" where
  "outputs_set k state =
     (if k = 1 then is_set (evaluator_score state) \<and> is_set (evaluator_justification state)
      else if k = 2 then is_set (analyzer_strengths state) \<and> is_set (analyzer_weaknesses state)
                         \<and> is_set (final_summary state)
      else if k = 3 then is_set (improvement_suggestion state) \<and> is_set (final_improvement state)
      else if k = 4 then is_set (final_score state) \<and> is_set (final_summary state)
                         \<and> is_set (final_improvement state)
      else True)"

subsection \<open>Concrete inputs\<close>

definition settings0 :: Settings where
  "settings0 = \<lparr>groq_api_key = ''gsk_test'', enable_caching = True, redis_ttl = 86400\<rparr>"

definition request0 :: EvaluateAnswerRequest where
  "request0 = \<lparr>rq_candidate_answer = ''I would use a hash map.'',
               rq_question_context = None\<rparr>"

definition empty_store :: CacheStore where
  "empty_store = \<lparr>connected = True, get_error = None, setex_error = None,
                  entries = Map.empty\<rparr>"

definition world0 :: World where
  "world0 = \<lparr>llm_calls = 0, store = empty_store\<rparr>"

text \<open>A store whose every read and write raises.\<close>

definition broken_store :: CacheStore where
  "broken_store = \<lparr>connected = True, get_error = Some (ExternalError ''connection lost''),
                   setex_error = Some (ExternalError ''connection lost''),
                   entries = Map.empty\<rparr>"

text \<open>A capability that raises at every invocation.\<close>

definition failing_judge :: Judge where
  "failing_judge =
     \<lparr>score_reply = (\<lambda>n c. Inl (ExternalError ''connection refused'')),
      analysis_reply = (\<lambda>n c. Inl (ExternalError ''connection refused'')),
      suggestion_reply = (\<lambda>n c. Inl (ExternalError ''connection refused''))\<rparr>"

text \<open>A capability that always answers well.\<close>

definition steady_judge :: Judge where
  "steady_judge =
     \<lparr>score_reply = (\<lambda>n c. Inr (4, ''correct and clear'')),
      analysis_reply = (\<lambda>n c. Inr (''clear'', ''no edge cases'', ''A solid answer overall'')),
      suggestion_reply = (\<lambda>n c. Inr ''Mention the edge cases too'')\<rparr>"

text \<open>A capability whose second invocation gives a summary of five characters.\<close>

definition moody_judge :: Judge where
  "moody_judge =
     \<lparr>score_reply = (\<lambda>n c. Inr (4, ''correct and clear'')),
      analysis_reply = (\<lambda>n c. if n = 1 then Inr (''clear'', ''no edge cases'', ''Good.'')
                               else Inr (''clear'', ''no edge cases'', ''A solid answer overall'')),
      suggestion_reply = (\<lambda>n c. Inr ''Mention the edge cases too'')\<rparr>"

text \<open>A state that reaches the synthesizer with texts of 250 and 400 characters.\<close>

definition long_state :: AgentState where
  "long_state =
     (initial_state request0)
       \<lparr>evaluator_score := Val 4,
        final_summary := Val (replicate 250 (CHR ''a'')),
        final_improvement := Val (replicate 400 (CHR ''b''))\<rparr>"

text \<open>
  Four candidates whose answers are scored 2, 5, 5 and 1, and an evaluation service that
  answers by these scores, or raises on the answer of the second when \<open>broken\<close> is set.
\<close>

definition four_candidates :: RankCandidatesRequest where
  "four_candidates =
     \<lparr>rk_candidates =
        [\<lparr>ca_candidate_id = ''c1'', ca_answer = ''answer worth two''\<rparr>,
         \<lparr>ca_candidate_id = ''c2'', ca_answer = ''answer worth five''\<rparr>,
         \<lparr>ca_candidate_id = ''c3'', ca_answer = ''another worth five''\<rparr>,
         \<lparr>ca_candidate_id = ''c4'', ca_answer = ''answer worth one''\<rparr>],
      rk_question_context = None\<rparr>"

definition scoring_service :: "bool \<Rightarrow> EvaluateAnswerRequest \<Rightarrow> exn + EvaluationResponse" where
  "scoring_service broken request =
     (let a = rq_candidate_answer request;
          reply = (\<lambda>n. Inr \<lparr>score = n, summary = ''A summary of the answer'',
                             improvement = ''Mention the edge cases too''\<rparr>)
      in if a = ''answer worth two'' then reply 2
         else if a = ''answer worth five'' then
           (if broken then Inl (ExternalError ''evaluation exploded'') else reply 5)
         else if a = ''another worth five'' then reply 5
         else reply 1)"

text \<open>The drafts of the four candidates, as records, had they been built.\<close>

definition four_drafts :: "RankedCandidate list" where
  "four_drafts =
     [\<lparr>rc_candidate_id = ''c1'', rc_score = 2, rc_summary = ''s'', rc_improvement = ''i'',
       rc_rank = 0\<rparr>,
      \<lparr>rc_candidate_id = ''c2'', rc_score = 5, rc_summary = ''s'', rc_improvement = ''i'',
       rc_rank = 0\<rparr>,
      \<lparr>rc_candidate_id = ''c3'', rc_score = 5, rc_summary = ''s'', rc_improvement = ''i'',
       rc_rank = 0\<rparr>,
      \<lparr>rc_candidate_id = ''c4'', rc_score = 1, rc_summary = ''s'', rc_improvement = ''i'',
       rc_rank = 0\<rparr>]"

section \<open>Properties\<close>

subsection \<open>The synthesizer node\<close>

text \<open>
  C4. The synthesizer truncates deterministically: a summary longer than 200 characters
  becomes its first 197 characters followed by \<open>...\<close>, exactly 200 characters; an
  improvement longer than 300 becomes its first 297 characters followed by \<open>...\<close>,
  exactly 300 characters; a text at or under its limit is left as it is.
\<close>

theorem synthesizer_truncates:
  assumes "final_summary state = Val s" and "final_improvement state = Val t"
  shows "\<exists>s' t'. final_summary (synthesizer_node state) = Val s' \<and>
           final_improvement (synthesizer_node state) = Val t' \<and>
           (if 200 < length s then s' = take 197 s @ ''...'' \<and> length s' = 200 else s' = s) \<and>
           (if 300 < length t then t' = take 297 t @ ''...'' \<and> length t' = 300 else t' = t)"
  using assms by (simp add: synthesizer_node_def synthesizer_try_def Let_def)

theorem synthesizer_truncates_witness:
  "final_summary (synthesizer_node long_state) = Val (replicate 197 (CHR ''a'') @ ''...'') \<and>
   final_improvement (synthesizer_node long_state) = Val (replicate 297 (CHR ''b'') @ ''...'') \<and>
   length (replicate 197 (CHR ''a'') @ ''...'') = 200 \<and>
   length (replicate 297 (CHR ''b'') @ ''...'') = 300"
  using synthesizer_truncates [of long_state "replicate 250 (CHR ''a'')" "replicate 400 (CHR ''b'')"]
  by (simp add: long_state_def)




subsection \<open>Responses are validated wherever they are built\<close>

lemma mk_EvaluationResponse_Inr:
  "mk_EvaluationResponse a b c = Inr r \<Longrightarrow>
     valid_response r \<and> a = Some (score r) \<and> b = Some (summary r) \<and> c = Some (improvement r)"
  by (cases a; cases b; cases c) (auto simp add: valid_response_def split: if_splits)

lemma get_cached_result_valid:
  "get_cached_result settings redis cache_key = Some r \<Longrightarrow> valid_response r"
  by (auto simp add: get_cached_result_def valid_response_def
        split: if_splits option.splits cached_text.splits sum.splits prod.splits)

lemma subscript_Inr: "subscript k sl = Inr v \<Longrightarrow> sl = put v"
  by (cases sl) auto

lemma build_response_Inr:
  "build_response result = Inr r \<Longrightarrow>
     valid_response r \<and> final_score result = Val (score r) \<and>
     final_summary result = Val (summary r) \<and> final_improvement result = Val (improvement r)"
  by (auto simp add: build_response_def split: sum.splits
        dest!: mk_EvaluationResponse_Inr subscript_Inr)

lemma neutral_response_built:
  "mk_EvaluationResponse (Some 3) (Some ''Evaluation encountered an error'')
     (Some ''Please try again or contact support'') = Inr neutral_response"
  by (simp add: neutral_response_def)

lemma valid_neutral_response: "valid_response neutral_response"
  by (simp add: neutral_response_def valid_response_def)

lemma run_workflow_response:
  "fst (run_workflow settings judge w cache_key request) =
     (case build_response (fst (graph_invoke settings judge (llm_calls w) (initial_state request))) of
        Inr response \<Rightarrow> Inr response
      | Inl e \<Rightarrow> Inr neutral_response)"
  by (simp add: run_workflow_def neutral_response_def split: prod.splits sum.splits)

lemma run_workflow_valid:
  "\<exists>r. fst (run_workflow settings judge w cache_key request) = Inr r \<and> valid_response r"
  by (auto simp add: run_workflow_response valid_neutral_response split: sum.splits
        dest: build_response_Inr)

lemma evaluate_valid:
  "\<exists>r. fst (evaluate settings judge w request) = Inr r \<and> valid_response r"
  using run_workflow_valid
  by (auto simp add: evaluate_def Let_def split: option.splits dest: get_cached_result_valid)

subsection \<open>Runs of the workflow on the concrete inputs\<close>

lemma settings0_simps:
  "enable_caching settings0" "groq_api_key settings0 = ''gsk_test''" "redis_ttl settings0 = 86400"
  by (simp_all add: settings0_def)

lemma world0_simps: "llm_calls world0 = 0" "store world0 = empty_store"
  by (simp_all add: world0_def)

lemma empty_store_simps:
  "connected empty_store" "get_error empty_store = None" "setex_error empty_store = None"
  "entries empty_store k = None"
  by (simp_all add: empty_store_def)

lemmas graph_defs = graph_invoke_def graph_trace_def workflow_def evaluator_node_def
  analyzer_node_def improvement_node_def synthesizer_node_def synthesizer_try_def
  evaluate_answer_sync_def analyze_answer_sync_def suggest_improvement_sync_def
  get_langchain_llm_def mk_EvaluatorOutput_def initial_state_def build_response_def

lemma all_stages_fall_back:
  assumes "groq_api_key settings \<noteq> []"
  shows "build_response (fst (graph_invoke settings failing_judge n (initial_state request))) =
         Inr \<lparr>score = 3, summary = ''Analysis unavailable due to error'',
              improvement = ''Review the question requirements and ensure your answer addresses '' @
                            ''all key points with specific examples.''\<rparr>"
  using assms by (simp add: graph_defs failing_judge_def Let_def)

lemma no_capability_at_all:
  assumes "groq_api_key settings = []"
  shows "build_response (fst (graph_invoke settings judge n (initial_state request))) =
         Inr \<lparr>score = 3, summary = ''Unable to generate summary'',
              improvement = ''Unable to generate suggestion''\<rparr>"
  using assms by (simp add: graph_defs Let_def)

lemma str_int_4: "str_int 4 = ''4''"
  by code_simp

lemma moody_first_run:
  "fst (graph_invoke settings0 moody_judge 0 (initial_state request0)) =
     (initial_state request0)\<lparr>evaluator_score := Val 4,
        evaluator_justification := Val ''correct and clear'',
        analyzer_strengths := Val ''clear'', analyzer_weaknesses := Val ''no edge cases'',
        improvement_suggestion := Val ''Mention the edge cases too'',
        final_score := Val 4, final_summary := Val ''Good.'',
        final_improvement := Val ''Mention the edge cases too'',
        messages := [''Score: 4, Justification: correct and clear'', ''Summary: Good.'',
                     ''Improvement: Mention the edge cases too'', ''Synthesis complete''],
        current_agent := Val ''synthesizer''\<rparr>"
  by (simp add: graph_defs moody_judge_def settings0_def Let_def str_int_4)

lemma moody_second_run:
  "fst (graph_invoke settings0 moody_judge 3 (initial_state request0)) =
     (initial_state request0)\<lparr>evaluator_score := Val 4,
        evaluator_justification := Val ''correct and clear'',
        analyzer_strengths := Val ''clear'', analyzer_weaknesses := Val ''no edge cases'',
        improvement_suggestion := Val ''Mention the edge cases too'',
        final_score := Val 4, final_summary := Val ''A solid answer overall'',
        final_improvement := Val ''Mention the edge cases too'',
        messages := [''Score: 4, Justification: correct and clear'',
                     ''Summary: A solid answer overall'',
                     ''Improvement: Mention the edge cases too'', ''Synthesis complete''],
        current_agent := Val ''synthesizer''\<rparr>"
  by (simp add: graph_defs moody_judge_def settings0_def Let_def str_int_4)

lemma evaluator_node_calls:
  "snd (evaluator_node settings judge (st, n)) = (if groq_api_key settings = [] then n else Suc n)"
  by (simp add: evaluator_node_def evaluate_answer_sync_def get_langchain_llm_def
        mk_EvaluatorOutput_def Let_def split: sum.splits prod.splits)

lemma analyzer_node_calls:
  "snd (analyzer_node settings judge (st, n)) = (if groq_api_key settings = [] then n else Suc n)"
  by (simp add: analyzer_node_def analyze_answer_sync_def get_langchain_llm_def
        Let_def split: sum.splits prod.splits)

lemma improvement_node_calls:
  "snd (improvement_node settings judge (st, n)) = (if groq_api_key settings = [] then n else Suc n)"
  by (simp add: improvement_node_def suggest_improvement_sync_def get_langchain_llm_def
        Let_def split: sum.splits prod.splits)

lemma graph_invoke_unfold:
  "graph_invoke settings judge n st =
     (let s1 = evaluator_node settings judge (st, n);
          s2 = analyzer_node settings judge s1;
          s3 = improvement_node settings judge s2
      in (synthesizer_node (fst s3), snd s3))"
  by (simp add: graph_invoke_def graph_trace_def workflow_def Let_def split: prod.splits)

lemma graph_invoke_calls:
  "snd (graph_invoke settings judge n st) = (if groq_api_key settings = [] then n else n + 3)"
proof -
  obtain a i where s1: "evaluator_node settings judge (st, n) = (a, i)" by force
  obtain b j where s2: "analyzer_node settings judge (a, i) = (b, j)" by force
  obtain c k where s3: "improvement_node settings judge (b, j) = (c, k)" by force
  from evaluator_node_calls [of settings judge st n] s1
  have i: "i = (if groq_api_key settings = [] then n else Suc n)" by simp
  from analyzer_node_calls [of settings judge a i] s2
  have j: "j = (if groq_api_key settings = [] then i else Suc i)" by simp
  from improvement_node_calls [of settings judge b j] s3
  have k: "k = (if groq_api_key settings = [] then j else Suc j)" by simp
  have "graph_invoke settings judge n st = (synthesizer_node c, k)"
    by (simp add: graph_invoke_unfold s1 s2 s3)
  then show ?thesis by (simp add: i j k)
qed

lemma moody_first_call:
  "evaluate settings0 moody_judge world0 request0 =
     (Inr neutral_response, \<lparr>llm_calls = 3, store = empty_store\<rparr>)"
proof -
  obtain st k where run: "graph_invoke settings0 moody_judge 0 (initial_state request0) = (st, k)"
    by force
  from graph_invoke_calls [of settings0 moody_judge 0 "initial_state request0"] run
  have k: "k = 3" by (simp add: settings0_simps)
  from moody_first_run run
  have "build_response st = Inl (ValidationError ''EvaluationResponse.summary'')"
    by (simp add: build_response_def initial_state_def)
  with run k show ?thesis
    by (simp add: evaluate_def run_workflow_def get_cached_result_def world0_simps
          empty_store_simps settings0_simps neutral_response_def world0_def)
qed

lemma moody_second_call:
  "evaluate settings0 moody_judge \<lparr>llm_calls = 3, store = empty_store\<rparr> request0 =
     (Inr \<lparr>score = 4, summary = ''A solid answer overall'',
           improvement = ''Mention the edge cases too''\<rparr>,
      \<lparr>llm_calls = 6,
       store = cache_result settings0 empty_store
                 (generate_cache_key (rq_candidate_answer request0) (rq_question_context request0))
                 \<lparr>score = 4, summary = ''A solid answer overall'',
                  improvement = ''Mention the edge cases too''\<rparr>\<rparr>)"
proof -
  obtain st k where run: "graph_invoke settings0 moody_judge 3 (initial_state request0) = (st, k)"
    by force
  from graph_invoke_calls [of settings0 moody_judge 3 "initial_state request0"] run
  have k: "k = 6" by (simp add: settings0_simps)
  from moody_second_run run
  have "build_response st = Inr \<lparr>score = 4, summary = ''A solid answer overall'',
                                 improvement = ''Mention the edge cases too''\<rparr>"
    by (simp add: build_response_def initial_state_def)
  with run k show ?thesis
    by (simp add: evaluate_def run_workflow_def get_cached_result_def
          empty_store_simps settings0_simps)
qed

lemma steady_run:
  "graph_invoke settings0 steady_judge n (initial_state request0) =
     ((initial_state request0)\<lparr>evaluator_score := Val 4,
        evaluator_justification := Val ''correct and clear'',
        analyzer_strengths := Val ''clear'', analyzer_weaknesses := Val ''no edge cases'',
        improvement_suggestion := Val ''Mention the edge cases too'',
        final_score := Val 4, final_summary := Val ''A solid answer overall'',
        final_improvement := Val ''Mention the edge cases too'',
        messages := [''Score: 4, Justification: correct and clear'',
                     ''Summary: A solid answer overall'',
                     ''Improvement: Mention the edge cases too'', ''Synthesis complete''],
        current_agent := Val ''synthesizer''\<rparr>, Suc (Suc (Suc n)))"
  by (simp add: graph_defs steady_judge_def settings0_def Let_def str_int_4)

lemma steady_workflow:
  "run_workflow settings0 steady_judge w k request0 =
     (Inr \<lparr>score = 4, summary = ''A solid answer overall'',
           improvement = ''Mention the edge cases too''\<rparr>,
      w\<lparr>llm_calls := Suc (Suc (Suc (llm_calls w))),
        store := cache_result settings0 (store w) k
                   \<lparr>score = 4, summary = ''A solid answer overall'',
                    improvement = ''Mention the edge cases too''\<rparr>\<rparr>)"
  unfolding run_workflow_def steady_run
  by (simp add: build_response_def initial_state_def)

subsection \<open>The evaluation service\<close>

text \<open>
  C1. Whatever the capability answers, \<^verbatim>\<open>evaluate\<close> returns a response (no exception)
  whose score lies between 1 and 5, whose summary has at most 200 characters and whose
  improvement has at most 300; this includes a capability that raises on every stage, where
  every stage takes its fallback.
\<close>

theorem evaluation_always_in_bounds:
  "\<exists>r. fst (evaluate settings judge w request) = Inr r \<and>
        1 \<le> score r \<and> score r \<le> 5 \<and> length (summary r) \<le> 200 \<and> length (improvement r) \<le> 300"
  using evaluate_valid [of settings judge w request] by (auto simp add: valid_response_def)

theorem evaluation_always_in_bounds_witness:
  "fst (evaluate settings0 failing_judge world0 request0) =
     Inr \<lparr>score = 3, summary = ''Analysis unavailable due to error'',
          improvement = ''Review the question requirements and ensure your answer addresses '' @
                        ''all key points with specific examples.''\<rparr>"
  using evaluation_always_in_bounds [of settings0 failing_judge world0 request0]
  by (simp add: evaluate_def run_workflow_response all_stages_fall_back get_cached_result_def
        settings0_def world0_def empty_store_def Let_def)

text \<open>
  C10. Every response \<^verbatim>\<open>evaluate\<close> returns has a summary and an improvement of at least
  10 characters; when the workflow ends with a shorter summary or improvement, the
  construction of the response fails inside the guarded block and the caller receives the
  neutral response, not a short text and not an exception.
\<close>

theorem responses_have_ten_characters:
  "\<exists>r. fst (evaluate settings judge w request) = Inr r \<and>
        10 \<le> length (summary r) \<and> 10 \<le> length (improvement r) \<and>
        (get_cached_result settings (store w)
           (generate_cache_key (rq_candidate_answer request) (rq_question_context request)) = None \<and>
         ((\<exists>s. final_summary (fst (graph_invoke settings judge (llm_calls w) (initial_state request)))
                 = Val s \<and> length s < 10) \<or>
          (\<exists>i. final_improvement (fst (graph_invoke settings judge (llm_calls w) (initial_state request)))
                 = Val i \<and> length i < 10))
         \<longrightarrow> r = neutral_response)"
proof -
  obtain r where r: "fst (evaluate settings judge w request) = Inr r" "valid_response r"
    using evaluate_valid by blast
  let ?result = "fst (graph_invoke settings judge (llm_calls w) (initial_state request))"
  have "r = neutral_response"
    if miss: "get_cached_result settings (store w)
           (generate_cache_key (rq_candidate_answer request) (rq_question_context request)) = None"
      and short: "(\<exists>s. final_summary ?result = Val s \<and> length s < 10) \<or>
                  (\<exists>i. final_improvement ?result = Val i \<and> length i < 10)"
  proof -
    have "\<exists>e. build_response ?result = Inl e"
    proof (cases "build_response ?result")
      case (Inr r')
      from build_response_Inr [OF Inr] short show ?thesis
        by (auto simp add: valid_response_def)
    qed simp
    with miss r(1) show ?thesis
      by (auto simp add: evaluate_def Let_def run_workflow_response)
  qed
  with r show ?thesis by (auto simp add: valid_response_def)
qed

theorem responses_have_ten_characters_witness:
  "final_summary (fst (graph_invoke settings0 moody_judge 0 (initial_state request0))) = Val ''Good.'' \<and>
   fst (evaluate settings0 moody_judge world0 request0) = Inr neutral_response"
proof -
  have miss: "get_cached_result settings0 (store world0)
          (generate_cache_key (rq_candidate_answer request0) (rq_question_context request0)) = None"
    by (simp add: get_cached_result_def world0_def empty_store_def)
  have short: "final_summary (fst (graph_invoke settings0 moody_judge (llm_calls world0)
                 (initial_state request0))) = Val ''Good.''"
    by (simp add: world0_def moody_first_run)
  from responses_have_ten_characters [of settings0 moody_judge world0 request0] miss short
  show ?thesis by (auto simp add: world0_def)
qed

lemma get_cached_result_ignores_setex:
  "get_cached_result settings (redis\<lparr>setex_error := x\<rparr>) cache_key =
   get_cached_result settings redis cache_key"
  by (simp add: get_cached_result_def split: option.splits)

text \<open>
  C7. A failure of the cache never reaches the caller: when the store is not connected,
  caching is disabled, the read raises, or the stored text does not decode to a valid
  response, \<^verbatim>\<open>evaluate\<close> is the run of the workflow; it always returns a valid response;
  and the response is the same whether or not the write raises.
\<close>

theorem cache_failures_never_surface:
  "(\<not> connected (store w) \<or> \<not> enable_caching settings \<or> get_error (store w) \<noteq> None \<or>
    (\<exists>ttl. entries (store w)
             (generate_cache_key (rq_candidate_answer request) (rq_question_context request))
           = Some (ttl, Undecodable)) \<or>
    (\<exists>ttl n s i e. entries (store w)
             (generate_cache_key (rq_candidate_answer request) (rq_question_context request))
           = Some (ttl, Encoded n s i) \<and>
           mk_EvaluationResponse (Some n) (Some s) (Some i) = Inl e)
    \<longrightarrow> evaluate settings judge w request =
        run_workflow settings judge w
          (generate_cache_key (rq_candidate_answer request) (rq_question_context request)) request) \<and>
   (\<exists>r. fst (evaluate settings judge w request) = Inr r \<and> valid_response r) \<and>
   fst (evaluate settings judge (w\<lparr>store := (store w)\<lparr>setex_error := x\<rparr>\<rparr>) request) =
   fst (evaluate settings judge w request)"
proof (intro conjI impI)
  assume "\<not> connected (store w) \<or> \<not> enable_caching settings \<or> get_error (store w) \<noteq> None \<or>
    (\<exists>ttl. entries (store w)
             (generate_cache_key (rq_candidate_answer request) (rq_question_context request))
           = Some (ttl, Undecodable)) \<or>
    (\<exists>ttl n s i e. entries (store w)
             (generate_cache_key (rq_candidate_answer request) (rq_question_context request))
           = Some (ttl, Encoded n s i) \<and>
           mk_EvaluationResponse (Some n) (Some s) (Some i) = Inl e)"
  then have "get_cached_result settings (store w)
      (generate_cache_key (rq_candidate_answer request) (rq_question_context request)) = None"
    by (auto simp add: get_cached_result_def split: option.splits)
  then show "evaluate settings judge w request =
        run_workflow settings judge w
          (generate_cache_key (rq_candidate_answer request) (rq_question_context request)) request"
    by (simp add: evaluate_def)
next
  show "\<exists>r. fst (evaluate settings judge w request) = Inr r \<and> valid_response r"
    by (rule evaluate_valid)
next
  show "fst (evaluate settings judge (w\<lparr>store := (store w)\<lparr>setex_error := x\<rparr>\<rparr>) request) =
        fst (evaluate settings judge w request)"
    by (simp add: evaluate_def Let_def get_cached_result_ignores_setex run_workflow_response
          split: option.splits)
qed

theorem cache_failures_never_surface_witness:
  "get_error broken_store \<noteq> None \<and> setex_error broken_store \<noteq> None \<and>
   evaluate settings0 steady_judge \<lparr>llm_calls = 0, store = broken_store\<rparr> request0 =
     (Inr \<lparr>score = 4, summary = ''A solid answer overall'',
           improvement = ''Mention the edge cases too''\<rparr>,
      \<lparr>llm_calls = 3, store = broken_store\<rparr>)"
proof -
  have bad: "get_error (store \<lparr>llm_calls = 0, store = broken_store\<rparr>) \<noteq> None"
    by (simp add: broken_store_def)
  have kept: "cache_result settings0 broken_store k r = broken_store" for k r
    by (simp add: cache_result_def broken_store_def)
  from cache_failures_never_surface
         [of "\<lparr>llm_calls = 0, store = broken_store\<rparr>" settings0 request0 steady_judge] bad
  have "evaluate settings0 steady_judge \<lparr>llm_calls = 0, store = broken_store\<rparr> request0 =
        run_workflow settings0 steady_judge \<lparr>llm_calls = 0, store = broken_store\<rparr>
          (generate_cache_key (rq_candidate_answer request0) (rq_question_context request0)) request0"
    by blast
  then show ?thesis
    by (simp add: steady_workflow kept eval_nat_numeral) (simp add: broken_store_def)
qed

text \<open>
  C3, as stated: two successive calls of \<^verbatim>\<open>evaluate\<close> with the same input return the same
  response, and with a healthy store the second call does not invoke the capability. It
  fails when the first call ends in the neutral response, which is not written to the
  cache: the second call runs the workflow again, invokes the capability three more times
  and may return another response.
\<close>

theorem repeated_evaluation_counterexample:
  "connected (store world0) \<and> enable_caching settings0 \<and>
   get_error (store world0) = None \<and> setex_error (store world0) = None \<and>
   fst (evaluate settings0 moody_judge (snd (evaluate settings0 moody_judge world0 request0)) request0)
     \<noteq> fst (evaluate settings0 moody_judge world0 request0) \<and>
   llm_calls (snd (evaluate settings0 moody_judge
                     (snd (evaluate settings0 moody_judge world0 request0)) request0))
     = llm_calls (snd (evaluate settings0 moody_judge world0 request0)) + 3"
  by (simp add: moody_first_call moody_second_call neutral_response_def)
     (simp add: world0_simps empty_store_simps settings0_simps)

text \<open>
  C3, amended: with a healthy store (connected, caching enabled, reads and writes succeed),
  when the first call returned a cached response or the response built from the workflow
  (not the neutral response of the handler), a second call on the world the first one left
  returns the same response and leaves the world as it is: no invocation of the capability,
  no write.
\<close>

theorem repeated_evaluation_hits_cache:
  assumes healthy: "connected (store w)" "enable_caching settings"
                   "get_error (store w) = None" "setex_error (store w) = None"
    and first: "evaluate settings judge w request = (Inr r1, w1)"
    and kept: "get_cached_result settings (store w)
                 (generate_cache_key (rq_candidate_answer request) (rq_question_context request))
                 = Some r1 \<or>
               build_response (fst (graph_invoke settings judge (llm_calls w) (initial_state request)))
                 = Inr r1"
  shows "evaluate settings judge w1 request = (Inr r1, w1)"
proof -
  let ?key = "generate_cache_key (rq_candidate_answer request) (rq_question_context request)"
  show ?thesis
  proof (cases "get_cached_result settings (store w) ?key")
    case (Some r)
    with first have "r = r1" "w1 = w" by (simp_all add: evaluate_def)
    with Some show ?thesis by (simp add: evaluate_def)
  next
    case None
    with kept have built: "build_response
        (fst (graph_invoke settings judge (llm_calls w) (initial_state request))) = Inr r1"
      by simp
    from build_response_Inr [OF built] have valid: "valid_response r1" by simp
    from None first built have w1: "store w1 = cache_result settings (store w) ?key r1"
      by (auto simp add: evaluate_def run_workflow_def split: prod.splits)
    have "mk_EvaluationResponse (Some (score r1)) (Some (summary r1)) (Some (improvement r1)) = Inr r1"
      using valid by (simp add: valid_response_def)
    then have "get_cached_result settings (store w1) ?key = Some r1"
      using healthy by (simp add: w1 cache_result_def get_cached_result_def)
    then show ?thesis by (simp add: evaluate_def)
  qed
qed

theorem repeated_evaluation_hits_cache_witness:
  "evaluate settings0 steady_judge (snd (evaluate settings0 steady_judge world0 request0)) request0
     = evaluate settings0 steady_judge world0 request0 \<and>
   fst (evaluate settings0 steady_judge world0 request0) =
     Inr \<lparr>score = 4, summary = ''A solid answer overall'',
          improvement = ''Mention the edge cases too''\<rparr> \<and>
   llm_calls (snd (evaluate settings0 steady_judge world0 request0)) = 3"
proof -
  let ?key = "generate_cache_key (rq_candidate_answer request0) (rq_question_context request0)"
  let ?r = "\<lparr>score = 4, summary = ''A solid answer overall'',
             improvement = ''Mention the edge cases too''\<rparr>"
  have miss: "get_cached_result settings0 (store world0) ?key = None"
    by (simp add: get_cached_result_def world0_simps empty_store_simps)
  then have first: "evaluate settings0 steady_judge world0 request0 =
      (Inr ?r, world0\<lparr>llm_calls := Suc (Suc (Suc (llm_calls world0))),
                      store := cache_result settings0 (store world0) ?key ?r\<rparr>)"
    by (simp add: evaluate_def steady_workflow)
  have built: "build_response (fst (graph_invoke settings0 steady_judge (llm_calls world0)
                 (initial_state request0))) = Inr ?r"
    unfolding steady_run by (simp add: build_response_def initial_state_def)
  have "evaluate settings0 steady_judge
          (world0\<lparr>llm_calls := Suc (Suc (Suc (llm_calls world0))),
                  store := cache_result settings0 (store world0) ?key ?r\<rparr>) request0 =
        (Inr ?r, world0\<lparr>llm_calls := Suc (Suc (Suc (llm_calls world0))),
                        store := cache_result settings0 (store world0) ?key ?r\<rparr>)"
    by (rule repeated_evaluation_hits_cache [OF _ _ _ _ first])
       (simp_all add: world0_simps empty_store_simps settings0_simps built [unfolded world0_simps])
  then show ?thesis by (simp add: first world0_simps eval_nat_numeral)
qed

subsection \<open>The order of the stages\<close>

lemma evaluator_node_fields:
  assumes "evaluator_node settings judge (st, n) = (st', n')"
  shows "current_agent st' = Val ''evaluator'' \<and>
         is_set (evaluator_score st') \<and> is_set (evaluator_justification st')"
  using assms
  by (auto simp add: evaluator_node_def split: sum.splits prod.splits)

lemma analyzer_node_fields:
  assumes "analyzer_node settings judge (st, n) = (st', n')"
  shows "current_agent st' = Val ''analyzer'' \<and>
         is_set (analyzer_strengths st') \<and> is_set (analyzer_weaknesses st') \<and>
         is_set (final_summary st') \<and>
         evaluator_score st' = evaluator_score st \<and>
         evaluator_justification st' = evaluator_justification st"
  using assms
  by (auto simp add: analyzer_node_def split: sum.splits prod.splits)

lemma improvement_node_fields:
  assumes "improvement_node settings judge (st, n) = (st', n')"
  shows "current_agent st' = Val ''improvement'' \<and>
         is_set (improvement_suggestion st') \<and> is_set (final_improvement st') \<and>
         evaluator_score st' = evaluator_score st \<and>
         evaluator_justification st' = evaluator_justification st \<and>
         analyzer_strengths st' = analyzer_strengths st \<and>
         analyzer_weaknesses st' = analyzer_weaknesses st \<and>
         final_summary st' = final_summary st"
  using assms
  by (auto simp add: improvement_node_def split: sum.splits prod.splits)

lemma synthesizer_try_fields:
  assumes "synthesizer_try st = Inr st'"
  shows "is_set (final_summary st') \<and> is_set (final_improvement st') \<and>
         (is_set (evaluator_score st) \<longrightarrow> is_set (final_score st'))"
proof -
  obtain s where s: "get_default (final_summary st) ''No summary available'' = Some s"
    using assms by (cases "get_default (final_summary st) ''No summary available''")
       (auto simp add: synthesizer_try_def Let_def)
  obtain t where t: "get_default (final_improvement st)
                       ''No improvement suggestion available'' = Some t"
    using assms s
    by (cases "get_default (final_improvement st) ''No improvement suggestion available''")
       (auto simp add: synthesizer_try_def Let_def)
  from assms s t show ?thesis
    by (cases "evaluator_score st") (auto simp add: synthesizer_try_def Let_def)
qed

lemma synthesizer_node_fields:
  "current_agent (synthesizer_node st) = Val ''synthesizer'' \<and>
   is_set (final_summary (synthesizer_node st)) \<and>
   is_set (final_improvement (synthesizer_node st)) \<and>
   (is_set (evaluator_score st) \<longrightarrow> is_set (final_score (synthesizer_node st))) \<and>
   evaluator_score (synthesizer_node st) = evaluator_score st \<and>
   evaluator_justification (synthesizer_node st) = evaluator_justification st \<and>
   analyzer_strengths (synthesizer_node st) = analyzer_strengths st \<and>
   analyzer_weaknesses (synthesizer_node st) = analyzer_weaknesses st \<and>
   improvement_suggestion (synthesizer_node st) = improvement_suggestion st"
proof (cases "synthesizer_try st")
  case (Inl e)
  then show ?thesis by (simp add: synthesizer_node_def)
next
  case (Inr st')
  have "current_agent st' = Val ''synthesizer'' \<and>
        evaluator_score st' = evaluator_score st \<and>
        evaluator_justification st' = evaluator_justification st \<and>
        analyzer_strengths st' = analyzer_strengths st \<and>
        analyzer_weaknesses st' = analyzer_weaknesses st \<and>
        improvement_suggestion st' = improvement_suggestion st"
    using Inr by (auto simp add: synthesizer_try_def Let_def split: sum.splits)
  with synthesizer_try_fields [OF Inr] Inr show ?thesis
    by (simp add: synthesizer_node_def)
qed

lemma graph_trace_unfold:
  "graph_trace settings judge n st =
     (let s1 = evaluator_node settings judge (st, n);
          s2 = analyzer_node settings judge s1;
          s3 = improvement_node settings judge s2
      in [(st, n), s1, s2, s3, (synthesizer_node (fst s3), snd s3)])"
  by (simp add: graph_trace_def workflow_def Let_def split: prod.splits)

lemma below_five: "j < 5 \<longleftrightarrow> j = 0 \<or> j = 1 \<or> j = 2 \<or> j = 3 \<or> j = (4::nat)"
  by auto

text \<open>
  In a run of the workflow the synthesizer is the fourth node, and the state it receives
  has the score, the summary and the improvement set by the three nodes before it: none of
  its defaults is used there.
\<close>

lemma synthesizer_reached_with_fields_set:
  "let tr = map fst (graph_trace settings judge n (initial_state request)) in
     tr ! 4 = synthesizer_node (tr ! 3) \<and>
     is_set (evaluator_score (tr ! 3)) \<and> is_set (final_summary (tr ! 3)) \<and>
     is_set (final_improvement (tr ! 3))"
proof -
  let ?s0 = "initial_state request"
  obtain a n1 where s1: "evaluator_node settings judge (?s0, n) = (a, n1)" by force
  obtain b n2 where s2: "analyzer_node settings judge (a, n1) = (b, n2)" by force
  obtain c n3 where s3: "improvement_node settings judge (b, n2) = (c, n3)" by force
  have tr: "map fst (graph_trace settings judge n ?s0) = [?s0, a, b, c, synthesizer_node c]"
    by (simp add: graph_trace_unfold s1 s2 s3)
  from evaluator_node_fields [OF s1] analyzer_node_fields [OF s2] improvement_node_fields [OF s3]
  have "is_set (evaluator_score c)" "is_set (final_summary c)" "is_set (final_improvement c)"
    by simp_all
  then show ?thesis unfolding Let_def tr by simp
qed

text \<open>\<^verbatim>\<open>should_continue\<close>, which the graph does not use, names the same order.\<close>

lemma should_continue_follows_the_edges:
  "map should_continue (map fst (graph_trace settings judge n (initial_state request))) =
     [''evaluator'', ''analyzer'', ''improvement'', ''synthesizer'', ''end'']"
proof -
  let ?s0 = "initial_state request"
  obtain a n1 where s1: "evaluator_node settings judge (?s0, n) = (a, n1)" by force
  obtain b n2 where s2: "analyzer_node settings judge (a, n1) = (b, n2)" by force
  obtain c n3 where s3: "improvement_node settings judge (b, n2) = (c, n3)" by force
  have "map fst (graph_trace settings judge n ?s0) = [?s0, a, b, c, synthesizer_node c]"
    by (simp add: graph_trace_unfold s1 s2 s3)
  moreover have "should_continue ?s0 = ''evaluator''"
    by (simp add: should_continue_def initial_state_def)
  moreover have "should_continue a = ''analyzer''"
    using evaluator_node_fields [OF s1] by (simp add: should_continue_def)
  moreover have "should_continue b = ''improvement''"
    using analyzer_node_fields [OF s2] by (simp add: should_continue_def)
  moreover have "should_continue c = ''synthesizer''"
    using improvement_node_fields [OF s3] by (simp add: should_continue_def)
  moreover have "should_continue (synthesizer_node c) = ''end''"
    using synthesizer_node_fields [of c] by (simp add: should_continue_def)
  ultimately show ?thesis by simp
qed

text \<open>
  C9. Over a run of the workflow from the initial state of \<^verbatim>\<open>evaluate\<close>, the marker
  \<^verbatim>\<open>current_agent\<close> starts at \<^verbatim>\<open>None\<close> and only moves forward through the order
  evaluator, analyzer, improvement, synthesizer: it never goes back and never skips a
  stage (each node moves it on by exactly one); and once a stage has completed, by success
  or by fallback, its outputs are set in every later state of the run.
\<close>

theorem stage_marker_monotonic:
  "let tr = map fst (graph_trace settings judge n (initial_state request)) in
     length tr = 5 \<and> current_agent (tr ! 0) = Null \<and>
     (\<forall>i j. i \<le> j \<and> j < length tr \<longrightarrow> stage_index (tr ! i) \<le> stage_index (tr ! j)) \<and>
     (\<forall>i. Suc i < length tr \<longrightarrow> stage_index (tr ! Suc i) = Suc (stage_index (tr ! i))) \<and>
     (\<forall>k j. 1 \<le> k \<and> k \<le> j \<and> j < length tr \<longrightarrow> outputs_set k (tr ! j))"
proof -
  let ?s0 = "initial_state request"
  obtain a n1 where s1: "evaluator_node settings judge (?s0, n) = (a, n1)" by force
  obtain b n2 where s2: "analyzer_node settings judge (a, n1) = (b, n2)" by force
  obtain c n3 where s3: "improvement_node settings judge (b, n2) = (c, n3)" by force
  define d where "d = synthesizer_node c"
  define xs where "xs = [?s0, a, b, c, d]"
  have tr: "map fst (graph_trace settings judge n ?s0) = xs"
    by (simp add: graph_trace_unfold s1 s2 s3 xs_def d_def)
  note fa = evaluator_node_fields [OF s1]
  note fb = analyzer_node_fields [OF s2]
  note fc = improvement_node_fields [OF s3]
  note fd = synthesizer_node_fields [of c, folded d_def]
  have len: "length xs = 5" by (simp add: xs_def)
  have nth: "xs ! 0 = ?s0" "xs ! 1 = a" "xs ! 2 = b" "xs ! 3 = c" "xs ! 4 = d"
    by (simp_all add: xs_def)
  have idx: "stage_index ?s0 = 0" "stage_index a = 1" "stage_index b = 2"
            "stage_index c = 3" "stage_index d = 4"
    using fa fb fc fd by (simp_all add: stage_index_def stage_order_def initial_state_def)
  have idx_nth: "stage_index (xs ! i) = i" if "i < 5" for i
    using that idx nth by (auto simp add: below_five)
  have o1: "outputs_set 1 a" "outputs_set 1 b" "outputs_set 1 c" "outputs_set 1 d"
    using fa fb fc fd by (simp_all add: outputs_set_def)
  have o2: "outputs_set 2 b" "outputs_set 2 c" "outputs_set 2 d"
    using fb fc fd by (simp_all add: outputs_set_def)
  have o3: "outputs_set 3 c" "outputs_set 3 d"
    using fc fd by (simp_all add: outputs_set_def)
  have o4: "outputs_set 4 d"
    using fa fb fc fd by (simp add: outputs_set_def)
  have out: "outputs_set k (xs ! j)" if "1 \<le> k" "k \<le> j" "j < 5" for k j
  proof -
    from that(3) consider "j = 0" | "j = 1" | "j = 2" | "j = 3" | "j = 4"
      by (auto simp add: below_five)
    then show ?thesis
    proof cases
      case 1 with that show ?thesis by simp
    next
      case 2 with that have "k = 1" by simp
      with 2 o1 nth show ?thesis by simp
    next
      case 3 with that have "k = 1 \<or> k = 2" by auto
      with 3 o1 o2 nth show ?thesis by auto
    next
      case 4 with that have "k = 1 \<or> k = 2 \<or> k = 3" by auto
      with 4 o1 o2 o3 nth show ?thesis by auto
    next
      case 5 with that have "k = 1 \<or> k = 2 \<or> k = 3 \<or> k = 4" by auto
      with 5 o1 o2 o3 o4 nth show ?thesis by auto
    qed
  qed
  have start: "current_agent (xs ! 0) = Null" by (simp add: nth initial_state_def)
  have mono: "stage_index (xs ! i) \<le> stage_index (xs ! j)" if "i \<le> j" "j < length xs" for i j
    using that len idx_nth [of i] idx_nth [of j] by simp
  have step: "stage_index (xs ! Suc i) = Suc (stage_index (xs ! i))" if "Suc i < length xs" for i
    using that len idx_nth [of i] idx_nth [of "Suc i"] by simp
  from len start mono step out show ?thesis
    unfolding Let_def tr by (simp add: len)
qed

theorem stage_marker_monotonic_witness:
  "map (\<lambda>s. get (current_agent s))
     (map fst (graph_trace settings0 failing_judge 0 (initial_state request0))) =
     [None, Some ''evaluator'', Some ''analyzer'', Some ''improvement'', Some ''synthesizer''] \<and>
   map stage_index (map fst (graph_trace settings0 failing_judge 0 (initial_state request0)))
     = [0, 1, 2, 3, 4] \<and>
   outputs_set 1 (map fst (graph_trace settings0 failing_judge 0 (initial_state request0)) ! 4) \<and>
   outputs_set 4 (map fst (graph_trace settings0 failing_judge 0 (initial_state request0)) ! 4)"
proof -
  let ?tr = "map fst (graph_trace settings0 failing_judge 0 (initial_state request0))"
  have markers: "map (\<lambda>s. get (current_agent s)) ?tr =
     [None, Some ''evaluator'', Some ''analyzer'', Some ''improvement'', Some ''synthesizer'']"
    by (simp add: graph_trace_unfold evaluator_node_def analyzer_node_def improvement_node_def
          synthesizer_node_def synthesizer_try_def evaluate_answer_sync_def
          analyze_answer_sync_def suggest_improvement_sync_def get_langchain_llm_def
          mk_EvaluatorOutput_def failing_judge_def settings0_simps Let_def initial_state_def)
  have "map stage_index ?tr =
        map (\<lambda>v. case v of None \<Rightarrow> 0 | Some a \<Rightarrow> Suc (position a stage_order))
          (map (\<lambda>s. get (current_agent s)) ?tr)"
    by (simp add: stage_index_def comp_def)
  then have idx: "map stage_index ?tr = [0, 1, 2, 3, 4]"
    unfolding markers by (simp add: stage_order_def)
  from stage_marker_monotonic [of settings0 failing_judge 0 request0]
  have "outputs_set 1 (?tr ! 4)" "outputs_set 4 (?tr ! 4)"
    by (simp_all add: Let_def)
  with markers idx show ?thesis by simp
qed

subsection \<open>The cache key\<close>

lemma length_le_bytes: "length (le_bytes k w) = k"
  by (simp add: le_bytes_def)

lemma length_md5: "length (md5 msg) = 16"
  by (simp add: md5_def length_le_bytes Let_def split: prod.splits)

lemma length_hexdigest: "length (hexdigest bs) = 2 * length bs"
  by (induction bs) (simp_all add: hexdigest_def)

lemma encode_trailing_space: "length (encode (s @ '' '')) = Suc (length (encode s))"
  by (simp add: encode_def encode_char_def)

text \<open>The hexadecimal rendering loses nothing: equal keys mean equal digests.\<close>

lemma hex_digit_inj:
  assumes "i < 16" and "j < 16"
    and "''0123456789abcdef'' ! i = ''0123456789abcdef'' ! j"
  shows "i = j"
proof -
  have "distinct ''0123456789abcdef''" by simp
  with assms show ?thesis by (simp add: nth_eq_iff_index_eq)
qed

lemma byte_of_nibbles:
  fixes b c :: "8 word"
  assumes "unat b div 16 = unat c div 16" and "unat b mod 16 = unat c mod 16"
  shows "b = c"
proof -
  have "unat b = 16 * (unat b div 16) + unat b mod 16" by simp
  also have "\<dots> = 16 * (unat c div 16) + unat c mod 16" using assms by simp
  also have "\<dots> = unat c" by simp
  finally show ?thesis by (simp add: word_unat_eq_iff)
qed

lemma hexdigest_Cons:
  "hexdigest (b # bs) =
     ''0123456789abcdef'' ! (unat b div 16) # ''0123456789abcdef'' ! (unat b mod 16) # hexdigest bs"
  by (simp add: hexdigest_def)

lemma hexdigest_inj: "hexdigest xs = hexdigest ys \<Longrightarrow> xs = ys"
proof (induction xs arbitrary: ys)
  case Nil
  then show ?case by (cases ys) (simp_all add: hexdigest_def)
next
  case (Cons b bs)
  show ?case
  proof (cases ys)
    case Nil
    with Cons.prems show ?thesis by (simp add: hexdigest_def)
  next
    case (Cons c cs)
    have b: "unat b div 16 < 16" "unat b mod 16 < 16"
      using unsigned_less [of b, where 'a = nat] by (simp_all add: less_mult_imp_div_less)
    have c: "unat c div 16 < 16" "unat c mod 16 < 16"
      using unsigned_less [of c, where 'a = nat] by (simp_all add: less_mult_imp_div_less)
    from Cons.prems Cons have eq:
      "''0123456789abcdef'' ! (unat b div 16) = ''0123456789abcdef'' ! (unat c div 16)"
      "''0123456789abcdef'' ! (unat b mod 16) = ''0123456789abcdef'' ! (unat c mod 16)"
      "hexdigest bs = hexdigest cs"
      by (simp_all only: hexdigest_Cons list.inject)
    from hex_digit_inj [OF b(1) c(1) eq(1)] hex_digit_inj [OF b(2) c(2) eq(2)]
    have "b = c" by (rule byte_of_nibbles)
    with Cons.IH [OF eq(3)] Cons show ?thesis by simp
  qed
qed

lemma generate_cache_key_eq_iff:
  "generate_cache_key a q = generate_cache_key a' q' \<longleftrightarrow>
     md5 (encode (cache_content a q)) = md5 (encode (cache_content a' q'))"
  by (auto simp add: generate_cache_key_def dest: hexdigest_inj)

text \<open>
  The digest of two joined texts, computed step by step: the padded block, its sixteen
  words, the 64 steps in eight runs of eight, and the rendering.
\<close>

lemma rotl32:
  assumes "n < 32"
  shows "word_rotl n (w :: 32 word) = push_bit n w OR drop_bit (32 - n) w"
proof (rule bit_word_eqI)
  fix k
  assume k: "k < LENGTH(32)"
  show "bit (word_rotl n w) k = bit (push_bit n w OR drop_bit (32 - n) w) k"
  proof (cases "n \<le> k")
    case True
    with k assms have "(k + (32 - n mod 32)) mod 32 = k - n"
      by (simp add: mod_if)
    moreover from True k have "\<not> bit w (32 - n + k)"
      by (auto dest: bit_imp_le_length)
    ultimately show ?thesis using True k
      by (simp add: bit_word_rotl_iff bit_or_iff bit_push_bit_iff bit_drop_bit_eq)
  next
    case False
    with k assms have "(k + (32 - n mod 32)) mod 32 = 32 - n + k"
      by simp
    then show ?thesis using False k
      by (simp add: bit_word_rotl_iff bit_or_iff bit_push_bit_iff bit_drop_bit_eq)
  qed
qed

lemma replicate_unfold: "replicate (numeral k) x = x # replicate (pred_numeral k) x"
  by (simp add: numeral_eq_Suc)

lemma upt_4: "[0..<4] = [0, 1, 2, 3]"
  by (simp add: upt_conv_Cons)

lemma upt_8: "[0..<8] = [0, 1, 2, 3, 4, 5, 6, 7]"
  by (simp add: upt_conv_Cons)

lemma upt_16: "[0..<16] = [0, 1, 2, 3, 4, 5, 6, 7, 8, 9, 10, 11, 12, 13, 14, 15]"
  by (simp add: upt_conv_Cons)

lemma upt_64:
  "[0..<64] =
     [0, 1, 2, 3, 4, 5, 6, 7] @
     [8, 9, 10, 11, 12, 13, 14, 15] @
     [16, 17, 18, 19, 20, 21, 22, 23] @
     [24, 25, 26, 27, 28, 29, 30, 31] @
     [32, 33, 34, 35, 36, 37, 38, 39] @
     [40, 41, 42, 43, 44, 45, 46, 47] @
     [48, 49, 50, 51, 52, 53, 54, 55] @
     [56, 57, 58, 59, 60, 61, 62, 63]"
  by (simp add: upt_conv_Cons)

lemma why_blocks:
  "md5_blocks (md5_pad (encode ''I would use a hash map.:Why?'')) =
    [[73, 32, 119, 111, 117, 108, 100, 32, 117, 115, 101, 32, 97, 32, 104, 97, 115, 104, 32,
      109, 97, 112, 46, 58, 87, 104, 121, 63, 128, 0, 0, 0, 0, 0, 0, 0, 0, 0, 0, 0, 0, 0, 0,
      0, 0, 0, 0, 0, 0, 0, 0, 0, 0, 0, 0, 0, 224, 0, 0, 0, 0, 0, 0, 0]]"
  by (simp add: encode_def encode_char_def md5_blocks_def md5_pad_def le_bytes_def upt_8
        replicate_unfold)

lemma why_words:
  "map (\<lambda>j. le_word (take 4 (drop (4 * j)
     [73, 32, 119, 111, 117, 108, 100, 32, 117, 115, 101, 32, 97, 32, 104, 97, 115, 104, 32,
      109, 97, 112, 46, 58, 87, 104, 121, 63, 128, 0, 0, 0, 0, 0, 0, 0, 0, 0, 0, 0, 0, 0, 0,
      0, 0, 0, 0, 0, 0, 0, 0, 0, 0, 0, 0, 0, 224, 0, 0, 0, 0, 0, 0, 0]))) [0..<16] =
     [0x6f772049, 0x20646c75, 0x20657375, 0x61682061, 0x6d206873, 0x3a2e7061, 0x3f796857,
      0x00000080, 0x00000000, 0x00000000, 0x00000000, 0x00000000, 0x00000000, 0x00000000,
      0x000000e0, 0x00000000]"
  by (simp add: le_word_def upt_16)

lemma why_steps_0:
  "foldl (md5_step
     [0x6f772049, 0x20646c75, 0x20657375, 0x61682061, 0x6d206873, 0x3a2e7061, 0x3f796857,
      0x00000080, 0x00000000, 0x00000000, 0x00000000, 0x00000000, 0x00000000, 0x00000000,
      0x000000e0, 0x00000000])
     (0x67452301, 0xefcdab89, 0x98badcfe, 0x10325476) [0, 1, 2, 3, 4, 5, 6, 7] =
     (0xf874dd08, 0xe68d19b9, 0x6c795d3c, 0xc10eecff)"
  by (simp add: md5_step_def md5_K_def md5_s_def rotl32)

lemma why_steps_8:
  "foldl (md5_step
     [0x6f772049, 0x20646c75, 0x20657375, 0x61682061, 0x6d206873, 0x3a2e7061, 0x3f796857,
      0x00000080, 0x00000000, 0x00000000, 0x00000000, 0x00000000, 0x00000000, 0x00000000,
      0x000000e0, 0x00000000])
     (0xf874dd08, 0xe68d19b9, 0x6c795d3c, 0xc10eecff) [8, 9, 10, 11, 12, 13, 14, 15] =
     (0xd4e9b736, 0x94ab453d, 0xdc79f3c6, 0x2ee42581)"
  by (simp add: md5_step_def md5_K_def md5_s_def rotl32)

lemma why_steps_16:
  "foldl (md5_step
     [0x6f772049, 0x20646c75, 0x20657375, 0x61682061, 0x6d206873, 0x3a2e7061, 0x3f796857,
      0x00000080, 0x00000000, 0x00000000, 0x00000000, 0x00000000, 0x00000000, 0x00000000,
      0x000000e0, 0x00000000])
     (0xd4e9b736, 0x94ab453d, 0xdc79f3c6, 0x2ee42581) [16, 17, 18, 19, 20, 21, 22, 23] =
     (0x79af5d70, 0x721de107, 0x13295e02, 0x2a8914af)"
  by (simp add: md5_step_def md5_K_def md5_s_def rotl32)

lemma why_steps_24:
  "foldl (md5_step
     [0x6f772049, 0x20646c75, 0x20657375, 0x61682061, 0x6d206873, 0x3a2e7061, 0x3f796857,
      0x00000080, 0x00000000, 0x00000000, 0x00000000, 0x00000000, 0x00000000, 0x00000000,
      0x000000e0, 0x00000000])
     (0x79af5d70, 0x721de107, 0x13295e02, 0x2a8914af) [24, 25, 26, 27, 28, 29, 30, 31] =
     (0x32298e4a, 0x5794f53c, 0xc4b46e60, 0x3297f780)"
  by (simp add: md5_step_def md5_K_def md5_s_def rotl32)

lemma why_steps_32:
  "foldl (md5_step
     [0x6f772049, 0x20646c75, 0x20657375, 0x61682061, 0x6d206873, 0x3a2e7061, 0x3f796857,
      0x00000080, 0x00000000, 0x00000000, 0x00000000, 0x00000000, 0x00000000, 0x00000000,
      0x000000e0, 0x00000000])
     (0x32298e4a, 0x5794f53c, 0xc4b46e60, 0x3297f780) [32, 33, 34, 35, 36, 37, 38, 39] =
     (0xbffe48ba, 0x0d6398e7, 0x35f3142d, 0x2ee7e330)"
  by (simp add: md5_step_def md5_K_def md5_s_def rotl32)

lemma why_steps_40:
  "foldl (md5_step
     [0x6f772049, 0x20646c75, 0x20657375, 0x61682061, 0x6d206873, 0x3a2e7061, 0x3f796857,
      0x00000080, 0x00000000, 0x00000000, 0x00000000, 0x00000000, 0x00000000, 0x00000000,
      0x000000e0, 0x00000000])
     (0xbffe48ba, 0x0d6398e7, 0x35f3142d, 0x2ee7e330) [40, 41, 42, 43, 44, 45, 46, 47] =
     (0x9e4b4833, 0xbd0a9dd6, 0x95c9596b, 0x9f6f8aef)"
  by (simp add: md5_step_def md5_K_def md5_s_def rotl32)

lemma why_steps_48:
  "foldl (md5_step
     [0x6f772049, 0x20646c75, 0x20657375, 0x61682061, 0x6d206873, 0x3a2e7061, 0x3f796857,
      0x00000080, 0x00000000, 0x00000000, 0x00000000, 0x00000000, 0x00000000, 0x00000000,
      0x000000e0, 0x00000000])
     (0x9e4b4833, 0xbd0a9dd6, 0x95c9596b, 0x9f6f8aef) [48, 49, 50, 51, 52, 53, 54, 55] =
     (0x05664d68, 0xed18e610, 0x36c7351a, 0x573ed08d)"
  by (simp add: md5_step_def md5_K_def md5_s_def rotl32)

lemma why_steps_56:
  "foldl (md5_step
     [0x6f772049, 0x20646c75, 0x20657375, 0x61682061, 0x6d206873, 0x3a2e7061, 0x3f796857,
      0x00000080, 0x00000000, 0x00000000, 0x00000000, 0x00000000, 0x00000000, 0x00000000,
      0x000000e0, 0x00000000])
     (0x05664d68, 0xed18e610, 0x36c7351a, 0x573ed08d) [56, 57, 58, 59, 60, 61, 62, 63] =
     (0x92f43999, 0xb96ab59a, 0x5a5c276d, 0xe0255b46)"
  by (simp add: md5_step_def md5_K_def md5_s_def rotl32)

lemma why_block:
  "md5_block (0x67452301, 0xefcdab89, 0x98badcfe, 0x10325476)
     [73, 32, 119, 111, 117, 108, 100, 32, 117, 115, 101, 32, 97, 32, 104, 97, 115, 104, 32,
      109, 97, 112, 46, 58, 87, 104, 121, 63, 128, 0, 0, 0, 0, 0, 0, 0, 0, 0, 0, 0, 0, 0, 0,
      0, 0, 0, 0, 0, 0, 0, 0, 0, 0, 0, 0, 0, 224, 0, 0, 0, 0, 0, 0, 0] =
     (0xfa395c9a, 0xa9386123, 0xf317046b, 0xf057afbc)"
  apply (simp only: md5_block_def Let_def case_prod_conv why_words upt_64 foldl_append
          why_steps_0 why_steps_8 why_steps_16 why_steps_24 why_steps_32
          why_steps_40 why_steps_48 why_steps_56)
  apply simp
  done

lemma why_md5:
  "hexdigest (md5 (encode ''I would use a hash map.:Why?'')) = ''9a5c39fa236138a96b0417f3bcaf57f0''"
  apply (simp only: md5_def why_blocks foldl_Cons foldl_Nil why_block Let_def case_prod_conv)
  apply (simp add: le_bytes_def upt_4 hexdigest_def)
  done

lemma why_space_blocks:
  "md5_blocks (md5_pad (encode ''I would use a hash map.:Why? '')) =
    [[73, 32, 119, 111, 117, 108, 100, 32, 117, 115, 101, 32, 97, 32, 104, 97, 115, 104, 32,
      109, 97, 112, 46, 58, 87, 104, 121, 63, 32, 128, 0, 0, 0, 0, 0, 0, 0, 0, 0, 0, 0, 0, 0,
      0, 0, 0, 0, 0, 0, 0, 0, 0, 0, 0, 0, 0, 232, 0, 0, 0, 0, 0, 0, 0]]"
  by (simp add: encode_def encode_char_def md5_blocks_def md5_pad_def le_bytes_def upt_8
        replicate_unfold)

lemma why_space_words:
  "map (\<lambda>j. le_word (take 4 (drop (4 * j)
     [73, 32, 119, 111, 117, 108, 100, 32, 117, 115, 101, 32, 97, 32, 104, 97, 115, 104, 32,
      109, 97, 112, 46, 58, 87, 104, 121, 63, 32, 128, 0, 0, 0, 0, 0, 0, 0, 0, 0, 0, 0, 0, 0,
      0, 0, 0, 0, 0, 0, 0, 0, 0, 0, 0, 0, 0, 232, 0, 0, 0, 0, 0, 0, 0]))) [0..<16] =
     [0x6f772049, 0x20646c75, 0x20657375, 0x61682061, 0x6d206873, 0x3a2e7061, 0x3f796857,
      0x00008020, 0x00000000, 0x00000000, 0x00000000, 0x00000000, 0x00000000, 0x00000000,
      0x000000e8, 0x00000000]"
  by (simp add: le_word_def upt_16)

lemma why_space_steps_0:
  "foldl (md5_step
     [0x6f772049, 0x20646c75, 0x20657375, 0x61682061, 0x6d206873, 0x3a2e7061, 0x3f796857,
      0x00008020, 0x00000000, 0x00000000, 0x00000000, 0x00000000, 0x00000000, 0x00000000,
      0x000000e8, 0x00000000])
     (0x67452301, 0xefcdab89, 0x98badcfe, 0x10325476) [0, 1, 2, 3, 4, 5, 6, 7] =
     (0xf874dd08, 0xce8d19d9, 0x6c795d3c, 0xc10eecff)"
  by (simp add: md5_step_def md5_K_def md5_s_def rotl32)

lemma why_space_steps_8:
  "foldl (md5_step
     [0x6f772049, 0x20646c75, 0x20657375, 0x61682061, 0x6d206873, 0x3a2e7061, 0x3f796857,
      0x00008020, 0x00000000, 0x00000000, 0x00000000, 0x00000000, 0x00000000, 0x00000000,
      0x000000e8, 0x00000000])
     (0xf874dd08, 0xce8d19d9, 0x6c795d3c, 0xc10eecff) [8, 9, 10, 11, 12, 13, 14, 15] =
     (0x8391f2ca, 0x3d4eb3a6, 0x52c37e17, 0x09d39f2e)"
  by (simp add: md5_step_def md5_K_def md5_s_def rotl32)

lemma why_space_steps_16:
  "foldl (md5_step
     [0x6f772049, 0x20646c75, 0x20657375, 0x61682061, 0x6d206873, 0x3a2e7061, 0x3f796857,
      0x00008020, 0x00000000, 0x00000000, 0x00000000, 0x00000000, 0x00000000, 0x00000000,
      0x000000e8, 0x00000000])
     (0x8391f2ca, 0x3d4eb3a6, 0x52c37e17, 0x09d39f2e) [16, 17, 18, 19, 20, 21, 22, 23] =
     (0xf17ed084, 0xbbddb56d, 0x5e282338, 0xea8b50a8)"
  by (simp add: md5_step_def md5_K_def md5_s_def rotl32)

lemma why_space_steps_24:
  "foldl (md5_step
     [0x6f772049, 0x20646c75, 0x20657375, 0x61682061, 0x6d206873, 0x3a2e7061, 0x3f796857,
      0x00008020, 0x00000000, 0x00000000, 0x00000000, 0x00000000, 0x00000000, 0x00000000,
      0x000000e8, 0x00000000])
     (0xf17ed084, 0xbbddb56d, 0x5e282338, 0xea8b50a8) [24, 25, 26, 27, 28, 29, 30, 31] =
     (0x69897566, 0xf84a48cf, 0x120080cc, 0xa9095796)"
  by (simp add: md5_step_def md5_K_def md5_s_def rotl32)

lemma why_space_steps_32:
  "foldl (md5_step
     [0x6f772049, 0x20646c75, 0x20657375, 0x61682061, 0x6d206873, 0x3a2e7061, 0x3f796857,
      0x00008020, 0x00000000, 0x00000000, 0x00000000, 0x00000000, 0x00000000, 0x00000000,
      0x000000e8, 0x00000000])
     (0x69897566, 0xf84a48cf, 0x120080cc, 0xa9095796) [32, 33, 34, 35, 36, 37, 38, 39] =
     (0x4e6ca60e, 0x54a72a2c, 0x1ed2a579, 0x9082933d)"
  by (simp add: md5_step_def md5_K_def md5_s_def rotl32)

lemma why_space_steps_40:
  "foldl (md5_step
     [0x6f772049, 0x20646c75, 0x20657375, 0x61682061, 0x6d206873, 0x3a2e7061, 0x3f796857,
      0x00008020, 0x00000000, 0x00000000, 0x00000000, 0x00000000, 0x00000000, 0x00000000,
      0x000000e8, 0x00000000])
     (0x4e6ca60e, 0x54a72a2c, 0x1ed2a579, 0x9082933d) [40, 41, 42, 43, 44, 45, 46, 47] =
     (0x6444e719, 0xd4b4eb38, 0xc66fc1c9, 0x91651d08)"
  by (simp add: md5_step_def md5_K_def md5_s_def rotl32)

lemma why_space_steps_48:
  "foldl (md5_step
     [0x6f772049, 0x20646c75, 0x20657375, 0x61682061, 0x6d206873, 0x3a2e7061, 0x3f796857,
      0x00008020, 0x00000000, 0x00000000, 0x00000000, 0x00000000, 0x00000000, 0x00000000,
      0x000000e8, 0x00000000])
     (0x6444e719, 0xd4b4eb38, 0xc66fc1c9, 0x91651d08) [48, 49, 50, 51, 52, 53, 54, 55] =
     (0xe293fc40, 0xbff33f9a, 0x5a776f65, 0xaf654294)"
  by (simp add: md5_step_def md5_K_def md5_s_def rotl32)

lemma why_space_steps_56:
  "foldl (md5_step
     [0x6f772049, 0x20646c75, 0x20657375, 0x61682061, 0x6d206873, 0x3a2e7061, 0x3f796857,
      0x00008020, 0x00000000, 0x00000000, 0x00000000, 0x00000000, 0x00000000, 0x00000000,
      0x000000e8, 0x00000000])
     (0xe293fc40, 0xbff33f9a, 0x5a776f65, 0xaf654294) [56, 57, 58, 59, 60, 61, 62, 63] =
     (0x6c6f7371, 0xa91f70fa, 0xfc68bf72, 0x39f94fdb)"
  by (simp add: md5_step_def md5_K_def md5_s_def rotl32)

lemma why_space_block:
  "md5_block (0x67452301, 0xefcdab89, 0x98badcfe, 0x10325476)
     [73, 32, 119, 111, 117, 108, 100, 32, 117, 115, 101, 32, 97, 32, 104, 97, 115, 104, 32,
      109, 97, 112, 46, 58, 87, 104, 121, 63, 32, 128, 0, 0, 0, 0, 0, 0, 0, 0, 0, 0, 0, 0, 0,
      0, 0, 0, 0, 0, 0, 0, 0, 0, 0, 0, 0, 0, 232, 0, 0, 0, 0, 0, 0, 0] =
     (0xd3b49672, 0x98ed1c83, 0x95239c70, 0x4a2ba451)"
  apply (simp only: md5_block_def Let_def case_prod_conv why_space_words upt_64 foldl_append
          why_space_steps_0 why_space_steps_8 why_space_steps_16 why_space_steps_24
          why_space_steps_32 why_space_steps_40 why_space_steps_48 why_space_steps_56)
  apply simp
  done

lemma why_space_md5:
  "hexdigest (md5 (encode ''I would use a hash map.:Why? '')) = ''7296b4d3831ced98709c239551a42b4a''"
  apply (simp only: md5_def why_space_blocks foldl_Cons foldl_Nil why_space_block Let_def case_prod_conv)
  apply (simp add: le_bytes_def upt_4 hexdigest_def)
  done

text \<open>
  C8, as stated: the key is \<open>eval:\<close> and the digest of answer, colon, question (or
  nothing), and any difference between two pairs gives different keys. The second part
  fails whatever the digest is: the colon may stand at the end of the answer or at the
  start of the question, so two different pairs are joined to the same text.
\<close>

theorem cache_key_collision:
  "generate_cache_key ''aaaaaaaaaa:b'' None = generate_cache_key ''aaaaaaaaaa'' (Some ''b:'') \<and>
   (''aaaaaaaaaa:b'', None) \<noteq> (''aaaaaaaaaa'', Some ''b:'')"
  by (simp add: generate_cache_key_def cache_content_def)

text \<open>
  C8, amended: the key is \<open>eval:\<close> followed by the 32 hexadecimal digits of the MD5
  digest of the UTF-8 bytes of answer, colon, question (or nothing), 37 characters in all.
  Two pairs have the same key exactly when MD5 gives their joined texts the same digest,
  so whenever the joined texts are the same; the key of \<open>(a, q)\<close> and the key of
  \<open>(a, q + " ")\<close> are digests of different bytes, and they differ unless MD5 collides on
  these.
\<close>

theorem cache_key_of_content:
  "length (generate_cache_key a q) = 37 \<and> take 5 (generate_cache_key a q) = ''eval:'' \<and>
   (generate_cache_key a q = generate_cache_key a' q' \<longleftrightarrow>
      md5 (encode (cache_content a q)) = md5 (encode (cache_content a' q'))) \<and>
   (cache_content a q = cache_content a' q' \<longrightarrow>
      generate_cache_key a q = generate_cache_key a' q') \<and>
   (generate_cache_key a (Some ((case q of None \<Rightarrow> [] | Some t \<Rightarrow> t) @ '' ''))
      = generate_cache_key a q \<longrightarrow>
    encode (cache_content a q @ '' '') \<noteq> encode (cache_content a q) \<and>
    md5 (encode (cache_content a q @ '' '')) = md5 (encode (cache_content a q)))"
proof -
  have join: "cache_content a (Some ((case q of None \<Rightarrow> [] | Some t \<Rightarrow> t) @ '' '')) =
        cache_content a q @ '' ''"
    by (simp add: cache_content_def split: option.splits)
  have "length (encode (cache_content a q @ '' '')) = Suc (length (encode (cache_content a q)))"
    by (simp only: encode_trailing_space)
  then have differ: "encode (cache_content a q @ '' '') \<noteq> encode (cache_content a q)"
    by (metis n_not_Suc_n)
  have shape: "length (generate_cache_key a q) = 37" "take 5 (generate_cache_key a q) = ''eval:''"
    by (simp_all add: generate_cache_key_def length_hexdigest length_md5)
  have same: "generate_cache_key a q = generate_cache_key a' q'"
    if "cache_content a q = cache_content a' q'"
    using that by (simp add: generate_cache_key_def)
  have last: "encode (cache_content a q @ '' '') \<noteq> encode (cache_content a q) \<and>
              md5 (encode (cache_content a q @ '' '')) = md5 (encode (cache_content a q))"
    if "generate_cache_key a (Some ((case q of None \<Rightarrow> [] | Some t \<Rightarrow> t) @ '' ''))
          = generate_cache_key a q"
    using that differ by (simp add: generate_cache_key_eq_iff join)
  from shape same last generate_cache_key_eq_iff [of a q a' q'] show ?thesis
    by blast
qed

theorem cache_key_of_content_witness:
  "generate_cache_key ''I would use a hash map.'' (Some ''Why?'')
     = ''eval:9a5c39fa236138a96b0417f3bcaf57f0'' \<and>
   generate_cache_key ''I would use a hash map.'' (Some ''Why? '')
     = ''eval:7296b4d3831ced98709c239551a42b4a'' \<and>
   md5 (encode (cache_content ''I would use a hash map.'' (Some ''Why? ''))) \<noteq>
   md5 (encode (cache_content ''I would use a hash map.'' (Some ''Why?''))) \<and>
   generate_cache_key ''aaaaaaaaaa:b'' None = generate_cache_key ''aaaaaaaaaa'' (Some ''b:'')"
proof -
  have k1: "generate_cache_key ''I would use a hash map.'' (Some ''Why?'')
              = ''eval:9a5c39fa236138a96b0417f3bcaf57f0''"
    by (simp add: generate_cache_key_def cache_content_def why_md5)
  have k2: "generate_cache_key ''I would use a hash map.'' (Some ''Why? '')
              = ''eval:7296b4d3831ced98709c239551a42b4a''"
    by (simp add: generate_cache_key_def cache_content_def why_space_md5)
  have "generate_cache_key ''I would use a hash map.'' (Some ''Why? '') \<noteq>
        generate_cache_key ''I would use a hash map.'' (Some ''Why?'')"
    unfolding k1 k2 by simp
  with cache_key_of_content [of "''I would use a hash map.''" "Some ''Why? ''"
         "''I would use a hash map.''" "Some ''Why?''"]
  have d: "md5 (encode (cache_content ''I would use a hash map.'' (Some ''Why? ''))) \<noteq>
           md5 (encode (cache_content ''I would use a hash map.'' (Some ''Why?'')))"
    by blast
  have "cache_content ''aaaaaaaaaa:b'' None = cache_content ''aaaaaaaaaa'' (Some ''b:'')"
    by (simp add: cache_content_def)
  with cache_key_of_content [of "''aaaaaaaaaa:b''" None "''aaaaaaaaaa''" "Some ''b:''"]
  have "generate_cache_key ''aaaaaaaaaa:b'' None = generate_cache_key ''aaaaaaaaaa'' (Some ''b:'')"
    by blast
  with k1 k2 d show ?thesis by blast
qed

subsection \<open>The ranking service\<close>

text \<open>
  The sort and the second loop do what they are meant to: the sort puts the higher score
  first and keeps the order of submission among equal scores, and the loop gives the ranks
  \<open>r\<close>, \<open>r + 1\<close>, ... to drafts with scores between 1 and 5.
\<close>

lemma sort_by_score_descending:
  "sorted (map (\<lambda>x. - rc_score x) (sort_by_score cs))"
  by (simp add: sort_by_score_def)

lemma sort_by_score_stable:
  "filter (\<lambda>x. rc_score x = k) (sort_by_score cs) = filter (\<lambda>x. rc_score x = k) cs"
  using sort_key_stable [of "\<lambda>x. - rc_score x" "- k" cs]
  by (simp add: sort_by_score_def)

lemma sort_by_score_same_candidates:
  "set (sort_by_score cs) = set cs \<and> length (sort_by_score cs) = length cs"
  by (simp add: sort_by_score_def)

lemma assign_ranks_dense:
  assumes "1 \<le> r" and "\<forall>c \<in> set cs. 1 \<le> rc_score c \<and> rc_score c \<le> 5"
  shows "\<exists>rs. assign_ranks r cs = Inr rs \<and> length rs = length cs \<and>
              (\<forall>i < length cs. rs ! i = (cs ! i)\<lparr>rc_rank := r + int i\<rparr>)"
  using assms
proof (induction cs arbitrary: r)
  case Nil
  then show ?case by simp
next
  case (Cons c cs)
  from Cons.prems have "1 \<le> r + 1" and "\<forall>c \<in> set cs. 1 \<le> rc_score c \<and> rc_score c \<le> 5"
    by simp_all
  from Cons.IH [OF this] obtain rs where rs: "assign_ranks (r + 1) cs = Inr rs"
    "length rs = length cs" "\<forall>i < length cs. rs ! i = (cs ! i)\<lparr>rc_rank := r + 1 + int i\<rparr>"
    by blast
  have head: "mk_RankedCandidate (rc_candidate_id c) (rc_score c) (rc_summary c)
                (rc_improvement c) r = Inr (c\<lparr>rc_rank := r\<rparr>)"
    using Cons.prems by (simp add: mk_RankedCandidate_def)
  have "(c\<lparr>rc_rank := r\<rparr> # rs) ! i = ((c # cs) ! i)\<lparr>rc_rank := r + int i\<rparr>"
    if "i < length (c # cs)" for i
  proof (cases i)
    case 0
    then show ?thesis by simp
  next
    case (Suc k)
    with that rs(3) show ?thesis by (simp add: algebra_simps)
  qed
  with rs head show ?case by simp
qed

lemma four_drafts_ranked:
  "map (\<lambda>c. (rc_candidate_id c, rc_score c, rc_rank c))
     (projr (assign_ranks 1 (sort_by_score four_drafts))) =
     [(''c2'', 5, 1), (''c3'', 5, 2), (''c1'', 2, 3), (''c4'', 1, 4)]"
  by (simp add: four_drafts_def sort_by_score_def mk_RankedCandidate_def)

text \<open>
  No draft is ever built, though: \<^verbatim>\<open>rank=0\<close> is refused by \<^verbatim>\<open>rank: ge=1\<close>, in the
  \<^verbatim>\<open>try\<close> of \<^verbatim>\<open>_evaluate_candidate\<close> and again in its handler, from where the exception
  leaves the method; \<^verbatim>\<open>asyncio.gather\<close> raises it in \<^verbatim>\<open>rank_candidates\<close>.
\<close>

lemma draft_with_rank_0:
  "\<exists>e. mk_RankedCandidate cid n s i 0 = Inl e"
  by (simp add: mk_RankedCandidate_def)

lemma fallback_with_rank_0:
  "mk_RankedCandidate cid 3 s i 0 = Inl (ValidationError ''RankedCandidate.rank'')"
  by (simp add: mk_RankedCandidate_def)

lemma evaluate_candidate_raises:
  "evaluate_candidate ev cid eval_request = Inl (ValidationError ''RankedCandidate.rank'')"
  by (simp add: evaluate_candidate_def fallback_with_rank_0 mk_RankedCandidate_def Let_def
        split: sum.splits)

lemma rank_candidates_never_returns:
  "\<exists>e. rank_candidates ev request = Inl e"
proof (cases "eval_tasks (rk_question_context request) (rk_candidates request)")
  case (Inl e)
  then show ?thesis by (simp add: rank_candidates_def)
next
  case (Inr tasks)
  show ?thesis
  proof (cases tasks)
    case Nil
    with Inr show ?thesis
      by (simp add: rank_candidates_def sort_by_score_def mk_RankingResponse_def)
  next
    case (Cons t ts)
    with Inr show ?thesis
      by (simp add: rank_candidates_def evaluate_candidate_raises split: prod.splits)
  qed
qed

lemma rank_candidates_raises:
  assumes "eval_tasks (rk_question_context request) (rk_candidates request) = Inr (t # ts)"
  shows "rank_candidates ev request = Inl (ValidationError ''RankedCandidate.rank'')"
  using assms by (simp add: rank_candidates_def evaluate_candidate_raises split: prod.splits)

lemma four_candidates_tasks:
  "eval_tasks (rk_question_context four_candidates) (rk_candidates four_candidates) =
     Inr [(''c1'', \<lparr>rq_candidate_answer = ''answer worth two'', rq_question_context = None\<rparr>),
          (''c2'', \<lparr>rq_candidate_answer = ''answer worth five'', rq_question_context = None\<rparr>),
          (''c3'', \<lparr>rq_candidate_answer = ''another worth five'', rq_question_context = None\<rparr>),
          (''c4'', \<lparr>rq_candidate_answer = ''answer worth one'', rq_question_context = None\<rparr>)]"
  by (simp add: four_candidates_def mk_EvaluateAnswerRequest_def validate_answer_def strip_def
        isspace_def)

text \<open>
  C2. \<^verbatim>\<open>rank_candidates\<close> is to return the candidates sorted by score, the highest first
  and ties in the order of submission, with the ranks 1 to N. On the four candidates scored
  2, 5, 5 and 1 it returns no ranking: it raises the \<open>ValidationError\<close> of the draft built
  with \<^verbatim>\<open>rank=0\<close>.
\<close>

theorem ranking_four_candidates_raises:
  "rank_candidates (scoring_service False) four_candidates =
     Inl (ValidationError ''RankedCandidate.rank'')"
  by (rule rank_candidates_raises [OF four_candidates_tasks])

text \<open>
  C6. A candidate whose evaluation raises is to be replaced by the neutral draft (score 3,
  \<open>Evaluation failed\<close>, \<open>Unable to provide feedback\<close>) and the batch is to complete.
  With the evaluation of the second of the four candidates raising, the handler of
  \<^verbatim>\<open>_evaluate_candidate\<close> raises in its turn, building the neutral draft with
  \<^verbatim>\<open>rank=0\<close>, and the batch is aborted.
\<close>

theorem ranking_with_failed_candidate_raises:
  "scoring_service True \<lparr>rq_candidate_answer = ''answer worth five'', rq_question_context = None\<rparr>
     = Inl (ExternalError ''evaluation exploded'') \<and>
   evaluate_candidate (scoring_service True) ''c2''
     \<lparr>rq_candidate_answer = ''answer worth five'', rq_question_context = None\<rparr>
     = Inl (ValidationError ''RankedCandidate.rank'') \<and>
   rank_candidates (scoring_service True) four_candidates =
     Inl (ValidationError ''RankedCandidate.rank'')"
  by (simp add: rank_candidates_raises [OF four_candidates_tasks] evaluate_candidate_raises
        scoring_service_def)

end
